theory Spec2Isabelle
  imports Complex_Main "HOL-Library.Word" "HOL-Library.Code_Target_Nat"
begin

unbundle bit_operations_syntax

section \<open>Bytes, buffers and strings\<close>

text \<open>
  A Node.js \<open>Buffer\<close> is a sequence of unsigned bytes; a JavaScript string obtained
  from \<open>buffer.toString("ascii")\<close> is a sequence of characters below 128.
\<close>

type_synonym byte = "8 word"
type_synonym buffer = "byte list"

text \<open>\<open>buffer.slice(start, end)\<close> for non-negative indices: the bytes from \<open>start\<close>
  up to (excluding) \<open>end\<close>, clipped to the buffer, empty when \<open>end \<le> start\<close>.\<close>

definition buf_slice :: "'a list \<Rightarrow> nat \<Rightarrow> nat \<Rightarrow> 'a list" where
  "buf_slice buf start fin = take (fin - start) (drop start buf)"

text \<open>\<open>buf.slice(start)\<close>: the rest of the buffer from \<open>start\<close>.\<close>

definition slice_from :: "'a list \<Rightarrow> nat \<Rightarrow> 'a list" where
  "slice_from buf start = drop start buf"

text \<open>\<open>source.copy(target, targetStart)\<close>: overwrites the target from \<open>targetStart\<close>
  with as many bytes of the source as fit.\<close>

fun copy_into :: "buffer \<Rightarrow> buffer \<Rightarrow> nat \<Rightarrow> buffer" where
  "copy_into [] target i = target"
| "copy_into (b # bs) target i =
     (if i < length target then copy_into bs (target[i := b]) (Suc i) else target)"

text \<open>\<open>Buffer.from(str, "ascii")\<close> and \<open>buffer.toString("ascii")\<close>: the latter clears
  the top bit of every byte.\<close>

definition from_ascii :: "string \<Rightarrow> buffer" where
  "from_ascii s = map (\<lambda>c. of_nat (of_char c)) s"

definition toString_ascii :: "buffer \<Rightarrow> string" where
  "toString_ascii buf = map (\<lambda>b. char_of (unat (b AND 0x7F))) buf"

section \<open>GT06 encoder\<close>

text \<open>\<open>GT06Parser.calculateCRC\<close>: the sum of the bytes, reduced to 16 bits.\<close>

fun crc_loop :: "buffer \<Rightarrow> nat \<Rightarrow> nat" where
  "crc_loop [] crc = crc"
| "crc_loop (b # bs) crc = crc_loop bs (crc + unat b)"

definition calculateCRC :: "buffer \<Rightarrow> nat" where
  "calculateCRC dat = crc_loop dat 0 mod 65536"

text \<open>\<open>buffer.writeUInt16BE(v, offset)\<close>, which raises a RangeError when the two bytes
  do not fit.\<close>

datatype js_error = RangeError | TypeError | Error string

definition writeUInt16BE :: "buffer \<Rightarrow> nat \<Rightarrow> nat \<Rightarrow> js_error + buffer" where
  "writeUInt16BE buf v offset =
     (if offset + 2 \<le> length buf
      then Inr (buf[offset := of_nat (v div 256), offset + 1 := of_nat (v mod 256)])
      else Inl RangeError)"

definition START_BIT :: byte where "START_BIT = 0x78"
definition STOP_BIT :: byte where "STOP_BIT = 0x0D"
definition STOP_BIT2 :: byte where "STOP_BIT2 = 0x0A"

text \<open>\<open>GT06Parser.wrapCommand\<close>: a zero-filled buffer of \<open>length + 5\<close> bytes, where
  \<open>length = data.length + 1\<close>; the start bytes, the length byte, the data from offset 3,
  and the checksum of \<open>buffer[2 .. 3 + length)\<close> written at offset \<open>3 + length\<close>.\<close>

definition wrapCommand :: "buffer \<Rightarrow> js_error + buffer" where
  "wrapCommand dat =
     (let len = length dat + 1;
          b0 = replicate (len + 5) (0 :: byte);
          b1 = b0[0 := START_BIT];
          b2 = b1[1 := START_BIT];
          b3 = b2[2 := of_nat len];
          b4 = copy_into dat b3 3;
          crc = calculateCRC (buf_slice b4 2 (3 + len))
      in writeUInt16BE b4 crc (3 + len))"

definition buildLocateCommand :: "js_error + buffer" where
  "buildLocateCommand = wrapCommand [0x80, 0x01, 0x01, 0x01]"

definition buildRebootCommand :: "js_error + buffer" where
  "buildRebootCommand = wrapCommand [0x80, 0x02, 0x01, 0x01]"

definition buildEngineCommand :: "bool \<Rightarrow> js_error + buffer" where
  "buildEngineCommand stop =
     (let action = (if stop then 0x01 else 0x00) in wrapCommand [0x80, 0x05, 0x01, action])"

text \<open>A builder returns a buffer or \<open>null\<close>; it may also raise.\<close>

type_synonym built = "js_error + buffer option"

definition returning :: "js_error + buffer \<Rightarrow> built" where
  "returning r = (case r of Inl e \<Rightarrow> Inl e | Inr b \<Rightarrow> Inr (Some b))"

definition gt06_buildCommand :: "string \<Rightarrow> built" where
  "gt06_buildCommand command =
     (if command = ''locate'' then returning buildLocateCommand
      else if command = ''reboot'' then returning buildRebootCommand
      else if command = ''engine_stop'' then returning (buildEngineCommand True)
      else if command = ''engine_resume'' then returning (buildEngineCommand False)
      else Inr None)"

definition gt06_buildAuthResponse :: "bool \<Rightarrow> built" where
  "gt06_buildAuthResponse ok =
     (let response = (if ok then 0x01 else 0x00) in returning (wrapCommand [0x01, response]))"

definition gt06_buildLoginResponse :: "bool \<Rightarrow> built" where
  "gt06_buildLoginResponse ok =
     (let response = (if ok then 0x01 else 0x00) in returning (wrapCommand [0x01, response]))"

text \<open>The sequence number is a JavaScript number; \<open>sequence & 0xff\<close> is its low byte.\<close>

definition gt06_buildLocationAck :: "int \<Rightarrow> built" where
  "gt06_buildLocationAck seq = returning (wrapCommand [0x05, 0x01, of_int (seq mod 256)])"

definition gt06_buildHeartbeatResponse :: built where
  "gt06_buildHeartbeatResponse = returning (wrapCommand [0x13, 0x01])"


section \<open>JavaScript strings and numbers\<close>

definition startsWith :: "string \<Rightarrow> string \<Rightarrow> bool" where
  "startsWith s p = (take (length p) s = p)"

text \<open>White space and line terminators among the characters below 128, as
  \<open>String.prototype.trim\<close> and \<open>parseInt\<close> skip them.\<close>

definition is_ws :: "char \<Rightarrow> bool" where
  "is_ws c = (c \<in> set [CHR 0x09, CHR 0x0A, CHR 0x0B, CHR 0x0C, CHR 0x0D, CHR 0x20])"

definition trim :: "string \<Rightarrow> string" where
  "trim s = rev (dropWhile is_ws (rev (dropWhile is_ws s)))"

text \<open>\<open>str.split(sep)\<close> for a one-character separator; the empty string splits into
  one empty field.\<close>

fun js_split :: "char \<Rightarrow> string \<Rightarrow> string list" where
  "js_split sep [] = [[]]"
| "js_split sep (c # cs) =
     (if c = sep then [] # js_split sep cs
      else (case js_split sep cs of [] \<Rightarrow> [[c]] | p # ps \<Rightarrow> (c # p) # ps))"

text \<open>\<open>arr[i]\<close>, \<open>undefined\<close> out of range.\<close>

definition nth_opt :: "'a list \<Rightarrow> nat \<Rightarrow> 'a option" where
  "nth_opt xs i = (if i < length xs then Some (xs ! i) else None)"

text \<open>\<open>str.substring(a, b)\<close> for \<open>0 \<le> a \<le> b\<close>.\<close>

definition substring :: "string \<Rightarrow> nat \<Rightarrow> nat \<Rightarrow> string" where
  "substring s a b = take (b - a) (drop a s)"

definition hex_digit :: "nat \<Rightarrow> char" where
  "hex_digit n = ''0123456789abcdef'' ! n"

text \<open>\<open>n.toString(16)\<close> for a non-negative integer, and \<open>str.padStart(n, c)\<close>.\<close>

fun toString16 :: "nat \<Rightarrow> string" where
  "toString16 n = (if n < 16 then [hex_digit n] else toString16 (n div 16) @ [hex_digit (n mod 16)])"

declare toString16.simps [simp del]

definition padStart :: "nat \<Rightarrow> char \<Rightarrow> string \<Rightarrow> string" where
  "padStart n c s = replicate (n - length s) c @ s"

text \<open>\<open>buffer.toString("hex")\<close>: two lower-case digits per byte.\<close>

definition toString_hex :: "buffer \<Rightarrow> string" where
  "toString_hex buf = concat (map (\<lambda>b. [hex_digit (unat b div 16), hex_digit (unat b mod 16)]) buf)"

text \<open>\<open>parseInt(str)\<close> without a radix: leading white space, a sign, a \<open>0x\<close> prefix,
  then the longest run of digits; \<open>NaN\<close> (here \<open>None\<close>) when there is none.\<close>

definition digit_of :: "nat \<Rightarrow> char \<Rightarrow> nat option" where
  "digit_of radix c =
     (let n = (of_char c :: nat);
          v = (if 48 \<le> n \<and> n \<le> 57 then Some (n - 48)
               else if 97 \<le> n \<and> n \<le> 122 then Some (n - 87)
               else if 65 \<le> n \<and> n \<le> 90 then Some (n - 55)
               else None)
      in case v of None \<Rightarrow> None | Some d \<Rightarrow> if d < radix then Some d else None)"

fun digits_value :: "nat \<Rightarrow> string \<Rightarrow> nat \<Rightarrow> nat" where
  "digits_value radix [] acc = acc"
| "digits_value radix (c # cs) acc =
     digits_value radix cs (acc * radix + (case digit_of radix c of Some d \<Rightarrow> d | None \<Rightarrow> 0))"

definition parseInt :: "string \<Rightarrow> int option" where
  "parseInt str =
     (let s1 = dropWhile is_ws str;
          neg = startsWith s1 ''-'';
          s2 = (if startsWith s1 ''-'' \<or> startsWith s1 ''+'' then drop 1 s1 else s1);
          hex = (startsWith s2 ''0x'' \<or> startsWith s2 ''0X'');
          radix = (if hex then 16 else 10);
          s3 = (if hex then drop 2 s2 else s2);
          ds = takeWhile (\<lambda>c. digit_of radix c \<noteq> None) s3
      in if ds = [] then None
         else Some ((if neg then - 1 else 1) * int (digits_value radix ds 0)))"

text \<open>
  JavaScript numbers are IEEE-754 doubles. The operations of the language on them that the
  decoders use are taken as parameters: \<open>parseFloat\<close>, \<open>isNaN\<close>, the number denoted by an
  integer literal or held by a byte, \<open>Math.floor\<close>, \<open>/\<close>, \<open>%\<close>, \<open>+\<close> and unary \<open>-\<close>.
\<close>

record 'n number_ops =
  parseFloat :: "string \<Rightarrow> 'n"
  isNaN :: "'n \<Rightarrow> bool"
  number :: "int \<Rightarrow> 'n"
  Math_floor :: "'n \<Rightarrow> 'n"
  num_div :: "'n \<Rightarrow> 'n \<Rightarrow> 'n"
  num_rem :: "'n \<Rightarrow> 'n \<Rightarrow> 'n"
  num_add :: "'n \<Rightarrow> 'n \<Rightarrow> 'n"
  num_neg :: "'n \<Rightarrow> 'n"

text \<open>A \<open>Date\<close>: \<open>new Date()\<close> (the time of the call) or
  \<open>new Date(year, month, day, hour, minute, second)\<close> in local time, a component being
  \<open>None\<close> when it is \<open>NaN\<close>.\<close>

datatype js_date =
    DateNow
  | DateLocal "int option" "int option" "int option" "int option" "int option" "int option"

definition js_add :: "int \<Rightarrow> int option \<Rightarrow> int option" where
  "js_add k v = (case v of None \<Rightarrow> None | Some i \<Rightarrow> Some (k + i))"

text \<open>A \<open>Date\<close> built from a \<open>NaN\<close> component is an Invalid Date: its time value is \<open>NaN\<close>.
  \<open>new Date()\<close> is always a valid date.\<close>

fun invalid_date :: "js_date \<Rightarrow> bool" where
  "invalid_date DateNow = False"
| "invalid_date (DateLocal y mo d h mi s) =
     (y = None \<or> mo = None \<or> d = None \<or> h = None \<or> mi = None \<or> s = None)"

section \<open>Decoded messages\<close>

text \<open>
  The object a sub-codec returns under \<open>data\<close>, one constructor per object shape in
  \<open>protocol-parser.js\<close>. The fields are, in order:
  \<^item> GT06 login: \<open>imei\<close>, \<open>typeId\<close>;
  \<^item> GT06 location: \<open>timestamp\<close>, \<open>latitude\<close>, \<open>longitude\<close>, \<open>speed\<close>, \<open>course\<close>,
    \<open>satellites\<close>, \<open>gpsFixed\<close>;
  \<^item> GT06 heartbeat: \<open>data\<close> (the timestamp is \<open>new Date()\<close>);
  \<^item> GT06 alarm: \<open>timestamp\<close>, \<open>latitude\<close>, \<open>longitude\<close>, \<open>speed\<close>, \<open>course\<close>,
    \<open>alarmType\<close>, \<open>alarmCode\<close>;
  \<^item> GT06 response: \<open>response\<close> (hex), \<open>data\<close>;
  \<^item> GT06 unknown: \<open>protocolNumber\<close>, \<open>data\<close>;
  \<^item> TK103 login: \<open>imei\<close>;
  \<^item> GPS303 login: \<open>raw\<close> (with \<open>protocol: 'gps303'\<close> and \<open>needsResponse: 'LOAD'\<close>);
  \<^item> GPS303 location: \<open>imei\<close> (\<open>None\<close> when undefined), \<open>latitude\<close>, \<open>longitude\<close>,
    \<open>speed\<close>, \<open>validity\<close>, \<open>timestamp\<close>, \<open>raw\<close> (with \<open>protocol: 'gps303'\<close>);
  \<^item> generic unknown: \<open>hex\<close>, \<open>ascii\<close>, \<open>length\<close>.
\<close>

datatype 'n parsed_data =
    GT06_Login string nat
  | GT06_Location js_date 'n 'n byte nat nat bool
  | GT06_Heartbeat buffer
  | GT06_Alarm js_date 'n 'n byte nat string byte
  | GT06_Response string buffer
  | GT06_Unknown byte buffer
  | TK103_Login string
  | GPS303_Login string
  | GPS303_Location "string option" 'n 'n 'n bool js_date string
  | Generic_Unknown string string nat

text \<open>\<open>parsedData.type\<close>, \<open>parsedData.protocol\<close> and \<open>parsedData.imei\<close>.\<close>

fun msg_type :: "'n parsed_data \<Rightarrow> string" where
  "msg_type (GT06_Login _ _) = ''login''"
| "msg_type (GT06_Location _ _ _ _ _ _ _) = ''location''"
| "msg_type (GT06_Heartbeat _) = ''heartbeat''"
| "msg_type (GT06_Alarm _ _ _ _ _ _ _) = ''alarm''"
| "msg_type (GT06_Response _ _) = ''response''"
| "msg_type (GT06_Unknown _ _) = ''unknown''"
| "msg_type (TK103_Login _) = ''login''"
| "msg_type (GPS303_Login _) = ''login''"
| "msg_type (GPS303_Location _ _ _ _ _ _ _) = ''location''"
| "msg_type (Generic_Unknown _ _ _) = ''unknown''"

fun msg_protocol :: "'n parsed_data \<Rightarrow> string option" where
  "msg_protocol (GPS303_Login _) = Some ''gps303''"
| "msg_protocol (GPS303_Location _ _ _ _ _ _ _) = Some ''gps303''"
| "msg_protocol _ = None"

fun msg_imei :: "'n parsed_data \<Rightarrow> string option" where
  "msg_imei (GT06_Login i _) = Some i"
| "msg_imei (TK103_Login i) = Some i"
| "msg_imei (GPS303_Location i _ _ _ _ _ _) = i"
| "msg_imei _ = None"

text \<open>The object a \<open>parse\<close> method returns: \<open>{success, data, bytesProcessed}\<close>,
  \<open>{success: false, error}\<close> or \<open>{success: false}\<close>; the top-level parser adds
  \<open>protocol\<close>. An absent property is \<open>None\<close>.\<close>

record 'n parse_result =
  success :: bool
  pdata :: "'n parsed_data option"
  bytesProcessed :: "nat option"
  perror :: "string option"
  protocol :: "string option"

definition failed :: "string option \<Rightarrow> 'n parse_result" where
  "failed e = \<lparr>success = False, pdata = None, bytesProcessed = None, perror = e,
               protocol = None\<rparr>"

definition succeeded :: "'n parsed_data \<Rightarrow> nat \<Rightarrow> 'n parse_result" where
  "succeeded d n = \<lparr>success = True, pdata = Some d, bytesProcessed = Some n, perror = None,
                    protocol = None\<rparr>"

section \<open>GT06 decoder\<close>

definition readUInt16BE :: "buffer \<Rightarrow> nat \<Rightarrow> nat" where
  "readUInt16BE buf off = unat (buf ! off) * 256 + unat (buf ! (off + 1))"

definition readUInt32BE :: "buffer \<Rightarrow> nat \<Rightarrow> nat" where
  "readUInt32BE buf off =
     ((unat (buf ! off) * 256 + unat (buf ! (off + 1))) * 256 + unat (buf ! (off + 2))) * 256
       + unat (buf ! (off + 3))"

text \<open>\<open>GT06Parser.parseIMEI\<close>: every byte as hexadecimal, padded to two digits.\<close>

fun parseIMEI_loop :: "buffer \<Rightarrow> string \<Rightarrow> string" where
  "parseIMEI_loop [] imei = imei"
| "parseIMEI_loop (b # bs) imei =
     parseIMEI_loop bs (imei @ padStart 2 (CHR ''0'') (toString16 (unat b)))"

definition parseIMEI :: "buffer \<Rightarrow> string" where
  "parseIMEI buf = parseIMEI_loop buf []"

definition gt06_parseDateTime :: "buffer \<Rightarrow> js_date" where
  "gt06_parseDateTime buf =
     DateLocal (Some (2000 + int (unat (buf ! 0)))) (Some (int (unat (buf ! 1)) - 1))
       (Some (int (unat (buf ! 2)))) (Some (int (unat (buf ! 3))))
       (Some (int (unat (buf ! 4)))) (Some (int (unat (buf ! 5))))"

definition gt06_parseCoordinate :: "'n number_ops \<Rightarrow> buffer \<Rightarrow> 'n" where
  "gt06_parseCoordinate ops buf =
     num_div ops (number ops (int (readUInt32BE buf 0))) (number ops 1800000)"

definition parseLogin :: "buffer \<Rightarrow> js_error + 'n parsed_data" where
  "parseLogin dat =
     (if length dat < 10 then Inl (Error ''Invalid login data length'')
      else Inr (GT06_Login (parseIMEI (buf_slice dat 0 8)) (readUInt16BE dat 8)))"

definition parseLocation :: "'n number_ops \<Rightarrow> buffer \<Rightarrow> js_error + 'n parsed_data" where
  "parseLocation ops dat =
     (if length dat < 21 then Inl (Error ''Invalid location data length'')
      else
        let dateTime = gt06_parseDateTime (buf_slice dat 0 6);
            quantity = dat ! 6;
            latitude = gt06_parseCoordinate ops (buf_slice dat 7 11);
            longitude = gt06_parseCoordinate ops (buf_slice dat 11 15);
            speed = dat ! 15;
            course = readUInt16BE dat 16
        in Inr (GT06_Location dateTime latitude longitude speed course
                  (unat (quantity AND 0x0F)) (0 < unat (quantity AND 0x10))))"

definition parseHeartbeat :: "buffer \<Rightarrow> js_error + 'n parsed_data" where
  "parseHeartbeat dat = Inr (GT06_Heartbeat dat)"

definition alarmMessage :: "byte \<Rightarrow> string" where
  "alarmMessage alarmType =
     (if alarmType = 0x00 then ''Normal''
      else if alarmType = 0x01 then ''SOS''
      else if alarmType = 0x02 then ''Power Cut''
      else if alarmType = 0x03 then ''Vibration''
      else if alarmType = 0x04 then ''Fence In''
      else if alarmType = 0x05 then ''Fence Out''
      else if alarmType = 0x06 then ''Over Speed''
      else ''Unknown alarm'')"

definition parseAlarm :: "'n number_ops \<Rightarrow> buffer \<Rightarrow> js_error + 'n parsed_data" where
  "parseAlarm ops dat =
     (if length dat < 21 then Inl (Error ''Invalid alarm data length'')
      else
        let dateTime = gt06_parseDateTime (buf_slice dat 0 6);
            latitude = gt06_parseCoordinate ops (buf_slice dat 7 11);
            longitude = gt06_parseCoordinate ops (buf_slice dat 11 15);
            speed = dat ! 15;
            course = readUInt16BE dat 16;
            alarmType = dat ! 18
        in Inr (GT06_Alarm dateTime latitude longitude speed course
                  (alarmMessage alarmType) alarmType))"

definition parseCommandResponse :: "buffer \<Rightarrow> js_error + 'n parsed_data" where
  "parseCommandResponse dat = Inr (GT06_Response (toString_hex dat) dat)"

text \<open>\<open>GT06Parser.parse\<close>. An exception of a payload parser leaves the method.\<close>

definition gt06_parse :: "'n number_ops \<Rightarrow> buffer \<Rightarrow> js_error + 'n parse_result" where
  "gt06_parse ops buf =
     (if length buf < 5 then Inr (failed (Some ''Buffer too small''))
      else if buf ! 0 \<noteq> START_BIT \<or> buf ! 1 \<noteq> START_BIT
        then Inr (failed (Some ''Invalid start bits''))
      else
        let len = unat (buf ! 2);
            totalLength = len + 5
        in if length buf < totalLength then Inr (failed (Some ''Incomplete packet''))
           else if buf ! (totalLength - 2) \<noteq> STOP_BIT \<or> buf ! (totalLength - 1) \<noteq> STOP_BIT2
             then Inr (failed (Some ''Invalid stop bits''))
           else
             let protocolNumber = buf ! 3;
                 dat = buf_slice buf 4 (3 + len - 1);
                 parsedData =
                   (if protocolNumber = 0x01 then parseLogin dat
                    else if protocolNumber = 0x12 then parseLocation ops dat
                    else if protocolNumber = 0x13 then parseHeartbeat dat
                    else if protocolNumber = 0x16 then parseAlarm ops dat
                    else if protocolNumber = 0x15 then parseCommandResponse dat
                    else Inr (GT06_Unknown protocolNumber dat))
             in case parsedData of
                  Inl e \<Rightarrow> Inl e
                | Inr d \<Rightarrow> Inr (succeeded d totalLength))"

section \<open>TK103, H02, GPS303 and generic sub-codecs\<close>

definition parseTK103Message :: "string \<Rightarrow> 'n parse_result" where
  "parseTK103Message message =
     (let parts = js_split (CHR '','') message
      in if length parts < 2 then failed (Some ''Invalid TK103 message'')
         else if startsWith (parts ! 1) ''imei:''
           then succeeded (TK103_Login (drop 5 (parts ! 1))) (length message)
         else failed (Some ''Unknown TK103 message type''))"

definition tk103_parse :: "buffer \<Rightarrow> js_error + 'n parse_result" where
  "tk103_parse buf =
     (let dat = toString_ascii buf
      in if startsWith dat ''##'' then Inr (parseTK103Message dat)
         else Inr (failed (Some ''Not TK103 protocol'')))"

definition h02_parse :: "buffer \<Rightarrow> js_error + 'n parse_result" where
  "h02_parse buf = Inr (failed (Some ''H02 parser not implemented yet''))"

text \<open>\<open>GPS303Parser.parseCoordinate\<close> and \<open>GPS303Parser.parseDateTime\<close>; nothing in
  their \<open>try\<close> blocks raises.\<close>

definition gps303_parseCoordinate :: "'n number_ops \<Rightarrow> string \<Rightarrow> 'n" where
  "gps303_parseCoordinate ops coordStr =
     (let coord = parseFloat ops coordStr
      in if isNaN ops coord then number ops 0
         else
           let degrees = Math_floor ops (num_div ops coord (number ops 100));
               minutes = num_rem ops coord (number ops 100)
           in num_add ops degrees (num_div ops minutes (number ops 60)))"

definition gps303_parseDateTime :: "string \<Rightarrow> string \<Rightarrow> js_date" where
  "gps303_parseDateTime date time =
     (if time = [] \<or> trim time = []
      then
        if date \<noteq> [] \<and> 12 \<le> length date
        then DateLocal (js_add 2000 (parseInt (substring date 0 2)))
               (js_add (- 1) (parseInt (substring date 2 4)))
               (parseInt (substring date 4 6)) (parseInt (substring date 6 8))
               (parseInt (substring date 8 10)) (parseInt (substring date 10 12))
        else DateNow
      else DateLocal (js_add 2000 (parseInt (substring date 0 2)))
             (js_add (- 1) (parseInt (substring date 2 4)))
             (parseInt (substring date 4 6)) (parseInt (substring time 0 2))
             (parseInt (substring time 2 4)) (parseInt (substring time 4 6)))"

definition gps303_parse :: "'n number_ops \<Rightarrow> buffer \<Rightarrow> js_error + 'n parse_result" where
  "gps303_parse ops buf =
     (let dat = toString_ascii buf
      in if startsWith dat ''##'' then Inr (succeeded (GPS303_Login dat) (length buf))
         else if startsWith dat ''imei:''
           then
             let parts = js_split (CHR '','') (trim dat)
             in if 12 \<le> length parts
                then
                  let imei = nth_opt (js_split (CHR '':'') (parts ! 0)) 1;
                      dateTime = parts ! 2;
                      validity = parts ! 6;
                      latStr = parts ! 7;
                      latDirection = parts ! 8;
                      lonStr = parts ! 9;
                      lonDirection = parts ! 10;
                      speed = (if parts ! 11 \<noteq> [] then parseFloat ops (parts ! 11)
                               else number ops 0);
                      latitude = gps303_parseCoordinate ops latStr;
                      longitude = gps303_parseCoordinate ops lonStr;
                      finalLat = (if latDirection = ''S'' then num_neg ops latitude else latitude);
                      finalLon = (if lonDirection = ''W'' then num_neg ops longitude else longitude)
                  in Inr (succeeded
                            (GPS303_Location imei finalLat finalLon speed (validity = ''A'')
                               (gps303_parseDateTime dateTime []) dat)
                            (length buf))
                else Inr (failed None)
         else Inr (failed None))"

text \<open>\<open>GenericParser.parse\<close>: the bytes in hexadecimal and with every character outside
  \<open>0x20..0x7E\<close> replaced by a dot.\<close>

definition printable :: "char \<Rightarrow> char" where
  "printable c = (let n = (of_char c :: nat) in if 32 \<le> n \<and> n \<le> 126 then c else CHR ''.'')"

definition generic_parse :: "buffer \<Rightarrow> js_error + 'n parse_result" where
  "generic_parse buf =
     Inr (succeeded
            (Generic_Unknown (toString_hex buf) (map printable (toString_ascii buf)) (length buf))
            (length buf))"

section \<open>ProtocolParser\<close>

datatype codec = GPS303 | GT06 | TK103 | H02 | Generic

text \<open>\<open>this.parsers\<close>, in the order of its keys, and \<open>this.defaultParser\<close>.\<close>

definition parsers :: "(string \<times> codec) list" where
  "parsers = [(''gps303'', GPS303), (''gt06'', GT06), (''tk103'', TK103), (''h02'', H02),
              (''generic'', Generic)]"

definition defaultParser :: string where
  "defaultParser = ''gps303''"

fun codec_parse :: "'n number_ops \<Rightarrow> codec \<Rightarrow> buffer \<Rightarrow> js_error + 'n parse_result" where
  "codec_parse ops GPS303 buf = gps303_parse ops buf"
| "codec_parse ops GT06 buf = gt06_parse ops buf"
| "codec_parse ops TK103 buf = tk103_parse buf"
| "codec_parse ops H02 buf = h02_parse buf"
| "codec_parse ops Generic buf = generic_parse buf"

text \<open>The loop of \<open>ProtocolParser.parse\<close> over the specific parsers: the first result with
  \<open>success\<close> is returned with its protocol name; a failure or an exception moves on.\<close>

fun parse_loop ::
  "'n number_ops \<Rightarrow> (string \<times> codec) list \<Rightarrow> buffer \<Rightarrow> 'n parse_result option" where
  "parse_loop ops [] buf = None"
| "parse_loop ops ((name, parser) # rest) buf =
     (if name = ''generic'' then parse_loop ops rest buf
      else case codec_parse ops parser buf of
             Inl e \<Rightarrow> parse_loop ops rest buf
           | Inr result \<Rightarrow>
               if success result then Some (result\<lparr>protocol := Some name\<rparr>)
               else parse_loop ops rest buf)"

definition parse :: "'n number_ops \<Rightarrow> buffer \<Rightarrow> 'n parse_result" where
  "parse ops buf =
     (case parse_loop ops parsers buf of
        Some result \<Rightarrow> result
      | None \<Rightarrow>
          (case codec_parse ops Generic buf of
             Inr result \<Rightarrow> result\<lparr>protocol := Some ''generic''\<rparr>
           | Inl e \<Rightarrow>
               \<lparr>success = False, pdata = None, bytesProcessed = Some 0,
                perror = Some ''Failed to parse data with any protocol'', protocol = None\<rparr>))"

text \<open>\<open>protocol ? this.parsers[protocol] : this.parsers[this.defaultParser]\<close>; the
  argument is \<open>None\<close> when the caller passes none, and a name that is not one of the five
  keys selects no parser.\<close>

definition select_parser :: "string option \<Rightarrow> codec option" where
  "select_parser prot =
     (case prot of
        None \<Rightarrow> map_of parsers defaultParser
      | Some p \<Rightarrow> if p = [] then map_of parsers defaultParser else map_of parsers p)"

text \<open>The \<open>build*\<close> methods of the sub-codecs. \<open>GPS303Parser\<close> has no \<open>buildCommand\<close>
  method, so calling it raises a TypeError; a command name may be \<open>undefined\<close>.\<close>

definition tk103_buildCommand :: "string \<Rightarrow> built" where
  "tk103_buildCommand command =
     (if command = ''locate'' then Inr (Some (from_ascii ''**,imei:000000000000000,C,01m;''))
      else Inr None)"

fun codec_buildCommand :: "codec \<Rightarrow> string option \<Rightarrow> built" where
  "codec_buildCommand GPS303 command = Inl TypeError"
| "codec_buildCommand GT06 None = Inr None"
| "codec_buildCommand GT06 (Some c) = gt06_buildCommand c"
| "codec_buildCommand TK103 None = Inr None"
| "codec_buildCommand TK103 (Some c) = tk103_buildCommand c"
| "codec_buildCommand H02 command = Inr None"
| "codec_buildCommand Generic None = Inl TypeError"
| "codec_buildCommand Generic (Some c) = Inr (Some (from_ascii c))"

fun codec_buildAuthResponse :: "codec \<Rightarrow> bool \<Rightarrow> built" where
  "codec_buildAuthResponse GPS303 ok = Inr (if ok then Some (from_ascii ''LOAD'') else None)"
| "codec_buildAuthResponse GT06 ok = gt06_buildAuthResponse ok"
| "codec_buildAuthResponse TK103 ok = Inr (if ok then Some (from_ascii ''LOAD'') else None)"
| "codec_buildAuthResponse H02 ok = Inr None"
| "codec_buildAuthResponse Generic ok = Inr (Some (from_ascii ''OK''))"

fun codec_buildLoginResponse :: "codec \<Rightarrow> bool \<Rightarrow> built" where
  "codec_buildLoginResponse GPS303 ok = Inr (Some (from_ascii ''LOAD''))"
| "codec_buildLoginResponse GT06 ok = gt06_buildLoginResponse ok"
| "codec_buildLoginResponse TK103 ok = Inr (if ok then Some (from_ascii ''LOAD'') else None)"
| "codec_buildLoginResponse H02 ok = Inr None"
| "codec_buildLoginResponse Generic ok = Inr (Some (from_ascii ''OK''))"

fun codec_buildLocationAck :: "codec \<Rightarrow> int \<Rightarrow> built" where
  "codec_buildLocationAck GPS303 seq = Inr (Some (from_ascii ''ON''))"
| "codec_buildLocationAck GT06 seq = gt06_buildLocationAck seq"
| "codec_buildLocationAck TK103 seq = Inr (Some (from_ascii ''ON''))"
| "codec_buildLocationAck H02 seq = Inr None"
| "codec_buildLocationAck Generic seq = Inr (Some (from_ascii ''ACK''))"

fun codec_buildHeartbeatResponse :: "codec \<Rightarrow> built" where
  "codec_buildHeartbeatResponse GPS303 = Inr (Some (from_ascii ''ON''))"
| "codec_buildHeartbeatResponse GT06 = gt06_buildHeartbeatResponse"
| "codec_buildHeartbeatResponse TK103 = Inr (Some (from_ascii ''ON''))"
| "codec_buildHeartbeatResponse H02 = Inr None"
| "codec_buildHeartbeatResponse Generic = Inr (Some (from_ascii ''PONG''))"

text \<open>The \<open>build*\<close> methods of \<open>ProtocolParser\<close>; \<open>buildCommand\<close> raises on an unknown
  protocol, the others return \<open>null\<close>.\<close>

definition buildCommand :: "string option \<Rightarrow> string option \<Rightarrow> built" where
  "buildCommand command prot =
     (case select_parser prot of
        None \<Rightarrow> Inl (Error ''Unknown protocol'')
      | Some parser \<Rightarrow> codec_buildCommand parser command)"

definition buildAuthResponse :: "bool \<Rightarrow> string option \<Rightarrow> built" where
  "buildAuthResponse ok prot =
     (case select_parser prot of None \<Rightarrow> Inr None
      | Some parser \<Rightarrow> codec_buildAuthResponse parser ok)"

definition buildLoginResponse :: "bool \<Rightarrow> string option \<Rightarrow> built" where
  "buildLoginResponse ok prot =
     (case select_parser prot of None \<Rightarrow> Inr None
      | Some parser \<Rightarrow> codec_buildLoginResponse parser ok)"

definition buildLocationAck :: "int \<Rightarrow> string option \<Rightarrow> built" where
  "buildLocationAck seq prot =
     (case select_parser prot of None \<Rightarrow> Inr None
      | Some parser \<Rightarrow> codec_buildLocationAck parser seq)"

definition buildHeartbeatResponse :: "string option \<Rightarrow> built" where
  "buildHeartbeatResponse prot =
     (case select_parser prot of None \<Rightarrow> Inr None
      | Some parser \<Rightarrow> codec_buildHeartbeatResponse parser)"

section \<open>Exact decimal arithmetic\<close>

text \<open>
  An instance of the number operations for evaluating examples: numbers are exact
  rationals (\<open>None\<close> is \<open>NaN\<close>), and \<open>parseFloat\<close> reads an optional sign, digits and an
  optional fraction, ignoring what follows. A double differs from the exact value by
  rounding only; exponents and \<open>Infinity\<close> are not read, and a division by zero, which the
  decoders never perform, gives \<open>NaN\<close>.
\<close>

definition is_digit :: "char \<Rightarrow> bool" where
  "is_digit c = (digit_of 10 c \<noteq> None)"

definition exact_parseFloat :: "string \<Rightarrow> rat option" where
  "exact_parseFloat str =
     (let s1 = dropWhile is_ws str;
          neg = startsWith s1 ''-'';
          s2 = (if startsWith s1 ''-'' \<or> startsWith s1 ''+'' then drop 1 s1 else s1);
          ip = takeWhile is_digit s2;
          r = dropWhile is_digit s2;
          fp = (if startsWith r ''.'' then takeWhile is_digit (drop 1 r) else [])
      in if ip = [] \<and> fp = [] then None
         else Some ((if neg then - 1 else 1) *
                (of_nat (digits_value 10 ip 0) + of_nat (digits_value 10 fp 0) / 10 ^ length fp)))"

definition exact_binop :: "(rat \<Rightarrow> rat \<Rightarrow> rat) \<Rightarrow> rat option \<Rightarrow> rat option \<Rightarrow> rat option" where
  "exact_binop f a b = (case a of None \<Rightarrow> None | Some x \<Rightarrow> (case b of None \<Rightarrow> None | Some y \<Rightarrow> Some (f x y)))"

definition exact_divide :: "rat option \<Rightarrow> rat option \<Rightarrow> rat option" where
  "exact_divide a b = (if b = Some 0 then None else exact_binop (\<lambda>x y. x / y) a b)"

text \<open>The remainder has the sign of the dividend.\<close>

definition exact_remainder :: "rat option \<Rightarrow> rat option \<Rightarrow> rat option" where
  "exact_remainder a b =
     (if b = Some 0 then None
      else exact_binop (\<lambda>x y. sgn x * (\<bar>x\<bar> - \<bar>y\<bar> * of_int \<lfloor>\<bar>x\<bar> / \<bar>y\<bar>\<rfloor>)) a b)"

definition exact_ops :: "rat option number_ops" where
  "exact_ops =
     \<lparr>parseFloat = exact_parseFloat,
      isNaN = (\<lambda>x. x = None),
      number = (\<lambda>i. Some (of_int i)),
      Math_floor = map_option (\<lambda>x. of_int \<lfloor>x\<rfloor>),
      num_div = exact_divide,
      num_rem = exact_remainder,
      num_add = exact_binop (\<lambda>x y. x + y),
      num_neg = map_option uminus\<rparr>"

text \<open>A sub-codec fails on a buffer when its \<open>parse\<close> raises or returns without
  \<open>success\<close> (a rejection and an incomplete packet alike).\<close>

definition codec_fails :: "'n number_ops \<Rightarrow> codec \<Rightarrow> buffer \<Rightarrow> bool" where
  "codec_fails ops c buf =
     (case codec_parse ops c buf of Inl e \<Rightarrow> True | Inr r \<Rightarrow> \<not> success r)"

section \<open>The store, the device manager and the broker\<close>

text \<open>
  The tables of the relational store that the server touches, as far as it reads or
  writes them, keyed as its queries address them: \<open>devices\<close> by IMEI, \<open>commands\<close> by id.
  Times are milliseconds. \<open>db_available\<close> says whether a query succeeds; a failing query
  raises.
\<close>

datatype command_status = Pending | Sent | Acknowledged | Failed

record device_row =
  dev_id :: nat
  active :: bool
  online :: bool
  last_seen :: "nat option"
  last_heartbeat :: "nat option"
  last_login :: "nat option"

record command_row =
  status :: command_status
  response :: "string option"
  error_message :: "string option"
  sent_at :: "nat option"
  ack_at :: "nat option"
  failed_at :: "nat option"

text \<open>The \<open>data\<close> argument of \<open>updateCommandStatus\<close>; an absent property is \<open>None\<close>.\<close>

record status_data =
  data_response :: "string option"
  data_error :: "string option"
  data_sent_at :: "nat option"
  data_ack_at :: "nat option"
  data_failed_at :: "nat option"

definition no_data :: status_data where
  "no_data = \<lparr>data_response = None, data_error = None, data_sent_at = None,
               data_ack_at = None, data_failed_at = None\<rparr>"

text \<open>A row of \<open>locations\<close> or \<open>alerts\<close>: the device id (\<open>None\<close> for null) and the decoded
  message whose latitude, longitude, speed and timestamp are saved.\<close>

record 'n saved_row =
  row_device_id :: "nat option"
  row_message :: "'n parsed_data"

text \<open>A message published on a queue: queue name, IMEI, device id, decoded message.\<close>

record 'n published_message =
  queue :: string
  pub_imei :: "string option"
  pub_device_id :: "nat option"
  pub_data :: "'n parsed_data"

text \<open>The device manager's cached status of a device.\<close>

record cached_status =
  c_online :: bool
  c_lastSeen :: nat
  c_lastUpdate :: "nat option"
  c_lastHeartbeat :: "nat option"
  c_lastLogin :: "nat option"

section \<open>Connections and the server state\<close>

text \<open>
  A socket records the chunks written to it and whether \<open>destroy()\<close> was called. A
  \<open>deviceConnection\<close> object is created per accepted socket; the registry
  \<open>connectedDevices\<close> and the socket's event handlers share it, so the objects live in a
  store \<open>connections\<close> indexed by a connection id, and the registry maps an IMEI to an id.
  \<open>authTimeout\<close> is the timer armed by \<open>handleConnection\<close>: the time it is due, or \<open>None\<close>
  once it was cleared or has fired.
\<close>

record net_socket =
  written :: "buffer list"
  destroyed :: bool

record deviceConnection =
  socket :: net_socket
  imei :: "string option"
  authenticated :: bool
  lastSeen :: nat
  conn_buffer :: buffer
  authTimeout :: "nat option"

record 'n server =
  connectedDevices :: "string \<rightharpoonup> nat"
  connections :: "nat \<rightharpoonup> deviceConnection"
  devices :: "string \<rightharpoonup> device_row"
  commands :: "string \<rightharpoonup> command_row"
  locations :: "'n saved_row list"
  alerts :: "'n saved_row list"
  published :: "'n published_message list"
  deviceStatus :: "string option \<rightharpoonup> cached_status"
  acked :: "nat list"
  nacked :: "nat list"
  db_available :: bool
  now :: nat

definition db_error :: js_error where
  "db_error = Error ''Database query error''"

text \<open>A string is truthy when it is present and not empty.\<close>

definition truthy :: "string option \<Rightarrow> bool" where
  "truthy v = (case v of None \<Rightarrow> False | Some str \<Rightarrow> str \<noteq> [])"

subsection \<open>DatabaseService\<close>

text \<open>\<open>getDeviceByImei\<close>: the row with this IMEI and \<open>active = true\<close>, or \<open>null\<close>.\<close>

definition getDeviceByImei :: "'n server \<Rightarrow> string option \<Rightarrow> js_error + device_row option" where
  "getDeviceByImei s i =
     (if \<not> db_available s then Inl db_error
      else Inr (case i of None \<Rightarrow> None
                | Some k \<Rightarrow> (case devices s k of None \<Rightarrow> None
                              | Some d \<Rightarrow> if active d then Some d else None)))"

definition getDeviceIdByImei :: "'n server \<Rightarrow> string option \<Rightarrow> js_error + nat option" where
  "getDeviceIdByImei s i =
     (case getDeviceByImei s i of Inl e \<Rightarrow> Inl e | Inr d \<Rightarrow> Inr (map_option dev_id d))"

text \<open>An \<open>UPDATE devices ... WHERE imei = $1\<close>.\<close>

definition update_device ::
  "'n server \<Rightarrow> string option \<Rightarrow> (device_row \<Rightarrow> device_row) \<Rightarrow> js_error + 'n server" where
  "update_device s i f =
     (if \<not> db_available s then Inl db_error
      else Inr (case i of None \<Rightarrow> s
                | Some k \<Rightarrow> (case devices s k of None \<Rightarrow> s
                              | Some d \<Rightarrow> s\<lparr>devices := (devices s)(k \<mapsto> f d)\<rparr>)))"

definition setDeviceOnlineStatus :: "'n server \<Rightarrow> string option \<Rightarrow> bool \<Rightarrow> js_error + 'n server" where
  "setDeviceOnlineStatus s i isOnline =
     update_device s i
       (\<lambda>d. d\<lparr>online := isOnline,
               last_seen := (if isOnline then Some (now s) else last_seen d)\<rparr>)"

definition db_updateLastHeartbeat :: "'n server \<Rightarrow> string option \<Rightarrow> js_error + 'n server" where
  "db_updateLastHeartbeat s i = update_device s i (\<lambda>d. d\<lparr>last_heartbeat := Some (now s)\<rparr>)"

definition db_updateLastLogin :: "'n server \<Rightarrow> string option \<Rightarrow> js_error + 'n server" where
  "db_updateLastLogin s i = update_device s i (\<lambda>d. d\<lparr>last_login := Some (now s)\<rparr>)"

definition saveLocation :: "'n server \<Rightarrow> 'n saved_row \<Rightarrow> js_error + 'n server" where
  "saveLocation s r =
     (if \<not> db_available s then Inl db_error else Inr (s\<lparr>locations := locations s @ [r]\<rparr>))"

definition saveAlert :: "'n server \<Rightarrow> 'n saved_row \<Rightarrow> js_error + 'n server" where
  "saveAlert s r =
     (if \<not> db_available s then Inl db_error else Inr (s\<lparr>alerts := alerts s @ [r]\<rparr>))"

text \<open>\<open>JSON.stringify\<close> of a string that needs no escaping.\<close>

definition JSON_stringify :: "string \<Rightarrow> string" where
  "JSON_stringify str = [CHR 0x22] @ str @ [CHR 0x22]"

text \<open>
  \<open>updateCommandStatus(commandId, status, data)\<close>: one
  \<open>UPDATE commands SET status = $2, ... WHERE id = $1\<close>. The status is always set; the
  other columns are set as the method adds them to the statement.
\<close>

definition update_command_row :: "nat \<Rightarrow> command_status \<Rightarrow> status_data \<Rightarrow> command_row \<Rightarrow> command_row" where
  "update_command_row t st dat row =
     row\<lparr>status := st,
         response := (if truthy (data_response dat)
                      then map_option JSON_stringify (data_response dat) else response row),
         error_message := (if truthy (data_error dat) then data_error dat else error_message row),
         sent_at := (if st = Sent \<or> data_sent_at dat \<noteq> None
                     then Some (case data_sent_at dat of Some v \<Rightarrow> v | None \<Rightarrow> t)
                     else sent_at row),
         ack_at := (if st = Acknowledged \<or> data_ack_at dat \<noteq> None
                    then Some (case data_ack_at dat of Some v \<Rightarrow> v | None \<Rightarrow> t)
                    else ack_at row),
         failed_at := (if st = Failed \<or> data_failed_at dat \<noteq> None
                       then Some (case data_failed_at dat of Some v \<Rightarrow> v | None \<Rightarrow> t)
                       else failed_at row)\<rparr>"

definition updateCommandStatus ::
  "'n server \<Rightarrow> string option \<Rightarrow> command_status \<Rightarrow> status_data \<Rightarrow> js_error + 'n server" where
  "updateCommandStatus s commandId st dat =
     (if \<not> db_available s then Inl db_error
      else Inr (case commandId of None \<Rightarrow> s
                | Some k \<Rightarrow> (case commands s k of None \<Rightarrow> s
                              | Some row \<Rightarrow>
                                  s\<lparr>commands := (commands s)(k \<mapsto> update_command_row (now s) st dat row)\<rparr>)))"

subsection \<open>DeviceManager\<close>

definition setDeviceOnline :: "'n server \<Rightarrow> string option \<Rightarrow> bool \<Rightarrow> js_error + 'n server" where
  "setDeviceOnline s i isOnline =
     (case setDeviceOnlineStatus s i isOnline of
        Inl e \<Rightarrow> Inl e
      | Inr s1 \<Rightarrow>
          Inr (s1\<lparr>deviceStatus := (deviceStatus s1)(i \<mapsto>
                 \<lparr>c_online = isOnline, c_lastSeen = now s1, c_lastUpdate = Some (now s1),
                  c_lastHeartbeat = None, c_lastLogin = None\<rparr>)\<rparr>))"

text \<open>\<open>this.deviceStatus.get(imei) || {}\<close>, with the fields every caller sets next.\<close>

definition cached_or_new :: "'n server \<Rightarrow> string option \<Rightarrow> cached_status" where
  "cached_or_new s i =
     (case deviceStatus s i of
        Some c \<Rightarrow> c
      | None \<Rightarrow> \<lparr>c_online = True, c_lastSeen = now s, c_lastUpdate = None,
                  c_lastHeartbeat = None, c_lastLogin = None\<rparr>)"

definition updateLastHeartbeat :: "'n server \<Rightarrow> string option \<Rightarrow> js_error + 'n server" where
  "updateLastHeartbeat s i =
     (case db_updateLastHeartbeat s i of
        Inl e \<Rightarrow> Inl e
      | Inr s1 \<Rightarrow>
          Inr (s1\<lparr>deviceStatus := (deviceStatus s1)(i \<mapsto>
                 (cached_or_new s1 i)\<lparr>c_lastHeartbeat := Some (now s1), c_lastSeen := now s1,
                                        c_online := True\<rparr>)\<rparr>))"

definition updateLastLogin :: "'n server \<Rightarrow> string option \<Rightarrow> js_error + 'n server" where
  "updateLastLogin s i =
     (case db_updateLastLogin s i of
        Inl e \<Rightarrow> Inl e
      | Inr s1 \<Rightarrow>
          Inr (s1\<lparr>deviceStatus := (deviceStatus s1)(i \<mapsto>
                 (cached_or_new s1 i)\<lparr>c_lastLogin := Some (now s1), c_lastSeen := now s1,
                                        c_online := True\<rparr>)\<rparr>))"

subsection \<open>Sockets\<close>

text \<open>\<open>socket.write(chunk)\<close> and \<open>socket.destroy()\<close> on the socket of a connection;
  nothing reaches a destroyed socket.\<close>

definition conn_update :: "'n server \<Rightarrow> nat \<Rightarrow> (deviceConnection \<Rightarrow> deviceConnection) \<Rightarrow> 'n server" where
  "conn_update s cid f =
     (case connections s cid of
        None \<Rightarrow> s
      | Some c \<Rightarrow> s\<lparr>connections := (connections s)(cid \<mapsto> f c)\<rparr>)"

definition socket_write :: "'n server \<Rightarrow> nat \<Rightarrow> buffer \<Rightarrow> 'n server" where
  "socket_write s cid chunk =
     conn_update s cid
       (\<lambda>c. if destroyed (socket c) then c
             else c\<lparr>socket := (socket c)\<lparr>written := written (socket c) @ [chunk]\<rparr>\<rparr>)"

definition socket_destroy :: "'n server \<Rightarrow> nat \<Rightarrow> 'n server" where
  "socket_destroy s cid = conn_update s cid (\<lambda>c. c\<lparr>socket := (socket c)\<lparr>destroyed := True\<rparr>\<rparr>)"

subsection \<open>TCPServer\<close>

text \<open>
  Each handler of \<open>tcp-server.js\<close> takes the server state and returns the state it
  leaves. A handler that may end with an exception returns the exception beside the state
  reached when it was raised. Every handler runs to completion before the next event is
  taken: the interleaving of two asynchronous handlers at an \<open>await\<close> is not modelled.
\<close>

type_synonym 'n outcome = "js_error option \<times> 'n server"

definition conn_imei :: "'n server \<Rightarrow> nat \<Rightarrow> string option" where
  "conn_imei s cid = (case connections s cid of None \<Rightarrow> None | Some c \<Rightarrow> imei c)"

definition conn_authenticated :: "'n server \<Rightarrow> nat \<Rightarrow> bool" where
  "conn_authenticated s cid =
     (case connections s cid of None \<Rightarrow> False | Some c \<Rightarrow> authenticated c)"

definition write_if_built :: "'n server \<Rightarrow> nat \<Rightarrow> built \<Rightarrow> 'n outcome" where
  "write_if_built s cid b =
     (case b of
        Inl e \<Rightarrow> (Some e, s)
      | Inr None \<Rightarrow> (None, s)
      | Inr (Some chunk) \<Rightarrow> (None, socket_write s cid chunk))"

text \<open>The server calls every builder without a protocol argument.\<close>

definition sendAuthResponse :: "'n server \<Rightarrow> nat \<Rightarrow> bool \<Rightarrow> 'n outcome" where
  "sendAuthResponse s cid ok = write_if_built s cid (buildAuthResponse ok None)"

definition sendLocationAck :: "'n server \<Rightarrow> nat \<Rightarrow> int \<Rightarrow> 'n outcome" where
  "sendLocationAck s cid seq = write_if_built s cid (buildLocationAck seq None)"

text \<open>\<open>authenticateDevice\<close>: an unknown or inactive device, and any exception, destroy the
  socket; otherwise the connection is marked, entered in the registry under the IMEI, the
  device set online and the authentication response written.\<close>

definition authenticateDevice :: "'n server \<Rightarrow> nat \<Rightarrow> string \<Rightarrow> 'n server" where
  "authenticateDevice s cid i =
     (case getDeviceByImei s (Some i) of
        Inl e \<Rightarrow> socket_destroy s cid
      | Inr None \<Rightarrow> socket_destroy s cid
      | Inr (Some deviceRecord) \<Rightarrow>
          let s1 = conn_update s cid (\<lambda>c. c\<lparr>imei := Some i, authenticated := True\<rparr>);
              s2 = s1\<lparr>connectedDevices := (connectedDevices s1)(i \<mapsto> cid)\<rparr>
          in case setDeviceOnline s2 (Some i) True of
               Inl e \<Rightarrow> socket_destroy s2 cid
             | Inr s3 \<Rightarrow>
                 (case sendAuthResponse s3 cid True of
                    (Some e, s4) \<Rightarrow> socket_destroy s4 cid
                  | (None, s4) \<Rightarrow> s4))"

definition handleLogin :: "'n server \<Rightarrow> nat \<Rightarrow> 'n outcome" where
  "handleLogin s cid =
     (case updateLastLogin s (conn_imei s cid) of
        Inl e \<Rightarrow> (Some e, s)
      | Inr s1 \<Rightarrow> write_if_built s1 cid (buildLoginResponse True None))"

text \<open>No decoded message has a \<open>sequence\<close> or a \<open>commandId\<close> property, so
  \<open>data.sequence || 0\<close> is 0 and \<open>data.commandId\<close> is undefined.\<close>

definition msg_sequence :: "'n parsed_data \<Rightarrow> int" where
  "msg_sequence d = 0"

definition msg_commandId :: "'n parsed_data \<Rightarrow> string option" where
  "msg_commandId d = None"

fun msg_response :: "'n parsed_data \<Rightarrow> string option" where
  "msg_response (GT06_Response r _) = Some r"
| "msg_response _ = None"

definition handleLocationData :: "'n server \<Rightarrow> nat \<Rightarrow> 'n parsed_data \<Rightarrow> 'n server" where
  "handleLocationData s cid d =
     (case getDeviceIdByImei s (conn_imei s cid) of
        Inl e \<Rightarrow> s
      | Inr deviceId \<Rightarrow>
          (case saveLocation s \<lparr>row_device_id = deviceId, row_message = d\<rparr> of
             Inl e \<Rightarrow> s
           | Inr s1 \<Rightarrow>
               let s2 = s1\<lparr>published := published s1 @
                          [\<lparr>queue = ''tracker_messages'', pub_imei = conn_imei s1 cid,
                            pub_device_id = deviceId, pub_data = d\<rparr>]\<rparr>
               in snd (sendLocationAck s2 cid (msg_sequence d))))"

definition handleHeartbeat :: "'n server \<Rightarrow> nat \<Rightarrow> 'n outcome" where
  "handleHeartbeat s cid =
     (case updateLastHeartbeat s (conn_imei s cid) of
        Inl e \<Rightarrow> (Some e, s)
      | Inr s1 \<Rightarrow> write_if_built s1 cid (buildHeartbeatResponse None))"

definition handleAlarmData :: "'n server \<Rightarrow> nat \<Rightarrow> 'n parsed_data \<Rightarrow> 'n server" where
  "handleAlarmData s cid d =
     (case getDeviceIdByImei s (conn_imei s cid) of
        Inl e \<Rightarrow> s
      | Inr deviceId \<Rightarrow>
          (case saveAlert s \<lparr>row_device_id = deviceId, row_message = d\<rparr> of
             Inl e \<Rightarrow> s
           | Inr s1 \<Rightarrow>
               s1\<lparr>published := published s1 @
                     [\<lparr>queue = ''device_alerts'', pub_imei = conn_imei s1 cid,
                       pub_device_id = deviceId, pub_data = d\<rparr>]\<rparr>))"

definition handleCommandResponse :: "'n server \<Rightarrow> nat \<Rightarrow> 'n parsed_data \<Rightarrow> 'n server" where
  "handleCommandResponse s cid d =
     (if truthy (msg_commandId d)
      then (case updateCommandStatus s (msg_commandId d) Acknowledged
                   (no_data\<lparr>data_response := msg_response d, data_ack_at := Some (now s)\<rparr>) of
              Inl e \<Rightarrow> s
            | Inr s1 \<Rightarrow> s1)
      else s)"

text \<open>The \<open>switch\<close> of \<open>handleDeviceData\<close> on the message type.\<close>

definition dispatch :: "'n server \<Rightarrow> nat \<Rightarrow> 'n parsed_data \<Rightarrow> 'n outcome" where
  "dispatch s cid d =
     (if msg_type d = ''login'' then handleLogin s cid
      else if msg_type d = ''location'' then (None, handleLocationData s cid d)
      else if msg_type d = ''heartbeat'' then handleHeartbeat s cid
      else if msg_type d = ''alarm'' then (None, handleAlarmData s cid d)
      else if msg_type d = ''response'' then (None, handleCommandResponse s cid d)
      else (None, s))"

definition clear_buffer :: "'n server \<Rightarrow> nat \<Rightarrow> 'n server" where
  "clear_buffer s cid = conn_update s cid (\<lambda>c. c\<lparr>conn_buffer := []\<rparr>)"

text \<open>\<open>handleDeviceData\<close>: the chunk is appended to the connection's buffer and the whole
  buffer parsed once. Anything raised after the append clears the buffer.\<close>

definition handleDeviceData :: "'n number_ops \<Rightarrow> 'n server \<Rightarrow> nat \<Rightarrow> buffer \<Rightarrow> 'n server" where
  "handleDeviceData ops s cid chunk =
     (case connections s cid of
        None \<Rightarrow> s
      | Some c0 \<Rightarrow>
          let buf = conn_buffer c0 @ chunk;
              s0 = conn_update s cid (\<lambda>c. c\<lparr>conn_buffer := buf\<rparr>);
              parseResult = parse ops buf
          in if \<not> success parseResult
             then (if 1024 < length buf then clear_buffer s0 cid else s0)
             else
               (case (pdata parseResult, bytesProcessed parseResult) of
                  (Some parsedData, Some n) \<Rightarrow>
                    let s1 = conn_update s0 cid (\<lambda>c. c\<lparr>conn_buffer := slice_from buf n\<rparr>)
                    in if msg_type parsedData = ''login'' \<and> msg_protocol parsedData = Some ''gps303''
                       then socket_write s1 cid (from_ascii ''LOAD'')
                       else
                         let s2 = (case msg_imei parsedData of
                                     Some i \<Rightarrow>
                                       if \<not> conn_authenticated s1 cid \<and> i \<noteq> []
                                       then authenticateDevice s1 cid i else s1
                                   | None \<Rightarrow> s1)
                         in if \<not> conn_authenticated s2 cid \<and> msg_type parsedData \<noteq> ''login''
                            then s2
                            else (case dispatch s2 cid parsedData of
                                    (Some e, s3) \<Rightarrow> clear_buffer s3 cid
                                  | (None, s3) \<Rightarrow> s3)
                | _ \<Rightarrow> clear_buffer s0 cid))"

text \<open>\<open>handleConnection\<close>: the new connection object, with the authentication timer due
  in 30 seconds; and the socket's \<open>data\<close>, \<open>close\<close> and \<open>error\<close> handlers and the timer's
  callback. A destroyed socket emits no more data.\<close>

definition handleConnection :: "'n server \<Rightarrow> nat \<Rightarrow> 'n server" where
  "handleConnection s cid =
     s\<lparr>connections := (connections s)(cid \<mapsto>
          \<lparr>socket = \<lparr>written = [], destroyed = False\<rparr>, imei = None, authenticated = False,
           lastSeen = now s, conn_buffer = [], authTimeout = Some (now s + 30000)\<rparr>)\<rparr>"

definition clearTimeout :: "'n server \<Rightarrow> nat \<Rightarrow> 'n server" where
  "clearTimeout s cid = conn_update s cid (\<lambda>c. c\<lparr>authTimeout := None\<rparr>)"

definition on_data :: "'n number_ops \<Rightarrow> 'n server \<Rightarrow> nat \<Rightarrow> buffer \<Rightarrow> 'n server" where
  "on_data ops s cid chunk =
     (case connections s cid of
        None \<Rightarrow> s
      | Some c \<Rightarrow>
          if destroyed (socket c) then s
          else
            let s1 = clearTimeout s cid;
                s2 = handleDeviceData ops s1 cid chunk
            in conn_update s2 cid (\<lambda>c. c\<lparr>lastSeen := now s2\<rparr>))"

definition authTimeout_fires :: "'n server \<Rightarrow> nat \<Rightarrow> 'n server" where
  "authTimeout_fires s cid =
     (case connections s cid of
        None \<Rightarrow> s
      | Some c \<Rightarrow>
          (case authTimeout c of
             None \<Rightarrow> s
           | Some due \<Rightarrow>
               if now s < due then s
               else
                 let s1 = clearTimeout s cid
                 in if \<not> authenticated c then socket_destroy s1 cid else s1))"

text \<open>\<open>handleDisconnection\<close>; the call of \<open>setDeviceOnline\<close> is not awaited, and its
  failure changes nothing.\<close>

definition handleDisconnection :: "'n server \<Rightarrow> nat \<Rightarrow> 'n server" where
  "handleDisconnection s cid =
     (case conn_imei s cid of
        None \<Rightarrow> s
      | Some i \<Rightarrow>
          if i = [] then s
          else
            let s1 = s\<lparr>connectedDevices := (connectedDevices s)(i := None)\<rparr>
            in case setDeviceOnline s1 (Some i) False of Inl e \<Rightarrow> s1 | Inr s2 \<Rightarrow> s2)"

definition on_close :: "'n server \<Rightarrow> nat \<Rightarrow> 'n server" where
  "on_close s cid = handleDisconnection (socket_destroy (clearTimeout s cid) cid) cid"

definition on_error :: "'n server \<Rightarrow> nat \<Rightarrow> 'n server" where
  "on_error s cid = handleDisconnection (clearTimeout s cid) cid"

subsection \<open>The command consumer\<close>

text \<open>A delivery of \<open>device_commands\<close> after \<open>JSON.parse\<close>: the properties the handler
  reads (\<open>parameters\<close> is passed on to builders that ignore it).\<close>

record command_message =
  msg_imei_of :: "string option"
  msg_command :: "string option"
  msg_commandId_of :: "string option"

definition handleDeviceCommand :: "'n server \<Rightarrow> command_message \<Rightarrow> 'n server" where
  "handleDeviceCommand s m =
     (case (case msg_imei_of m of None \<Rightarrow> None | Some i \<Rightarrow> connectedDevices s i) of
        None \<Rightarrow>
          (case updateCommandStatus s (msg_commandId_of m) Failed
                  (no_data\<lparr>data_error := Some ''Device not connected'',
                           data_failed_at := Some (now s)\<rparr>) of
             Inl e \<Rightarrow> s
           | Inr s1 \<Rightarrow> s1)
      | Some cid \<Rightarrow>
          (case buildCommand (msg_command m) None of
             Inl e \<Rightarrow> s
           | Inr None \<Rightarrow>
               (case updateCommandStatus s (msg_commandId_of m) Failed
                       (no_data\<lparr>data_error := Some ''Invalid command format'',
                                data_failed_at := Some (now s)\<rparr>) of
                  Inl e \<Rightarrow> s
                | Inr s1 \<Rightarrow> s1)
           | Inr (Some commandBuffer) \<Rightarrow>
               let s1 = socket_write s cid commandBuffer
               in case updateCommandStatus s1 (msg_commandId_of m) Sent
                         (no_data\<lparr>data_sent_at := Some (now s1)\<rparr>) of
                    Inl e \<Rightarrow> s1
                  | Inr s2 \<Rightarrow> s2))"

text \<open>The callback of \<open>consumeQueue\<close>: content that is not JSON (\<open>None\<close>) is nacked; else
  the handler runs, its exceptions are caught, and the delivery is acked.\<close>

definition consume_callback :: "'n server \<Rightarrow> nat \<Rightarrow> command_message option \<Rightarrow> 'n server" where
  "consume_callback s tag content =
     (case content of
        None \<Rightarrow> s\<lparr>nacked := nacked s @ [tag]\<rparr>
      | Some m \<Rightarrow> (let s1 = handleDeviceCommand s m in s1\<lparr>acked := acked s1 @ [tag]\<rparr>))"

subsection \<open>Runs\<close>

datatype event =
    Accept nat
  | Data nat buffer
  | Close nat
  | SocketError nat
  | TimerDue nat
  | Advance nat
  | Delivery nat "command_message option"

fun step :: "'n number_ops \<Rightarrow> 'n server \<Rightarrow> event \<Rightarrow> 'n server" where
  "step ops s (Accept cid) = handleConnection s cid"
| "step ops s (Data cid chunk) = on_data ops s cid chunk"
| "step ops s (Close cid) = on_close s cid"
| "step ops s (SocketError cid) = on_error s cid"
| "step ops s (TimerDue cid) = authTimeout_fires s cid"
| "step ops s (Advance ms) = s\<lparr>now := now s + ms\<rparr>"
| "step ops s (Delivery tag content) = consume_callback s tag content"

definition run :: "'n number_ops \<Rightarrow> 'n server \<Rightarrow> event list \<Rightarrow> 'n server" where
  "run ops s es = foldl (step ops) s es"

text \<open>A freshly started server over a store with the given devices and commands.\<close>

definition start :: "(string \<rightharpoonup> device_row) \<Rightarrow> (string \<rightharpoonup> command_row) \<Rightarrow> 'n server" where
  "start devs cmds =
     \<lparr>connectedDevices = Map.empty, connections = Map.empty, devices = devs, commands = cmds,
      locations = [], alerts = [], published = [], deviceStatus = Map.empty, acked = [],
      nacked = [], db_available = True, now = 0\<rparr>"

definition new_device :: "nat \<Rightarrow> device_row" where
  "new_device k = \<lparr>dev_id = k, active = True, online = False, last_seen = None,
                    last_heartbeat = None, last_login = None\<rparr>"

definition new_command :: command_row where
  "new_command = \<lparr>status = Pending, response = None, error_message = None, sent_at = None,
                   ack_at = None, failed_at = None\<rparr>"

section \<open>The reference framing and example data\<close>

text \<open>
  The outbound GT06 frame as the specification words it:
  \<open>0x78 0x78 | (len = datalen + 1) | data | crc(2) | 0x0D 0x0A\<close>, for any two checksum
  bytes.
\<close>

definition spec_gt06_frame :: "buffer \<Rightarrow> byte \<Rightarrow> byte \<Rightarrow> buffer" where
  "spec_gt06_frame dat c1 c2 =
     [0x78, 0x78, of_nat (length dat + 1)] @ dat @ [c1, c2] @ [0x0D, 0x0A]"


text \<open>A complete GT06 login frame: length byte \<open>0x0D\<close>, protocol number \<open>0x01\<close>, the eight
  IMEI bytes \<open>03 59 71 00 45 49 00 84\<close>, four more bytes and the stop bytes; and the first
  five bytes of it.\<close>

definition gt06_login_frame :: buffer where
  "gt06_login_frame =
     [0x78, 0x78, 0x0D, 0x01, 0x03, 0x59, 0x71, 0x00, 0x45, 0x49, 0x00, 0x84,
      0x50, 0x00, 0x00, 0x01, 0x0D, 0x0A]"

definition gt06_partial_frame :: buffer where
  "gt06_partial_frame = [0x78, 0x78, 0x0D, 0x01, 0x03]"

text \<open>A server whose store has one active device, registered under the hexadecimal
  rendering of those IMEI bytes, and one pending command \<open>c2\<close>.\<close>

definition demo_server :: "rat option server" where
  "demo_server = start [''0359710045490084'' \<mapsto> new_device 7] [''c2'' \<mapsto> new_command]"

text \<open>What is written to the socket of a connection, and whether it was destroyed.\<close>

definition socket_of :: "'n server \<Rightarrow> nat \<Rightarrow> net_socket option" where
  "socket_of s cid = map_option socket (connections s cid)"

text \<open>The coordinate formula as the specification words it, \<open>int(x/100) + (x mod 100)/60\<close>,
  over the number operations; and the number a pair of decimal digits at position \<open>i\<close> of a
  string denotes.\<close>

definition spec_coordinate :: "'n number_ops \<Rightarrow> 'n \<Rightarrow> 'n" where
  "spec_coordinate ops x =
     num_add ops (Math_floor ops (num_div ops x (number ops 100)))
       (num_div ops (num_rem ops x (number ops 100)) (number ops 60))"

definition digit_value :: "char \<Rightarrow> nat" where
  "digit_value c = of_char c - 48"

definition two_digits :: "string \<Rightarrow> nat \<Rightarrow> int" where
  "two_digits str i = int (10 * digit_value (str ! i) + digit_value (str ! (i + 1)))"

text \<open>The position frame of scenario S2.\<close>

definition gps303_position_frame :: string where
  "gps303_position_frame =
     ''imei:359710045490084,tracker,250101120000,,F,120000.000,A,2230.0000,S,04310.0000,W,42.5,...''"

text \<open>A position frame of 12 fields whose date field has 12 characters, the last two of
  them not digits.\<close>

definition gps303_bad_date_frame :: string where
  "gps303_bad_date_frame = ''imei:1,t,2501011200xx,,F,1,A,2230.0,S,04310.0,W,1''"

section \<open>Properties of the top-level parser\<close>

lemma parse_loop_Some_success: "parse_loop ops ps buf = Some r \<Longrightarrow> success r"
  by (induction ps) (auto split: if_splits sum.splits)

lemma parse_success: "success (parse ops buf)"
  by (auto simp: parse_def generic_parse_def succeeded_def dest: parse_loop_Some_success
      split: option.splits)

lemma parse_loop_all_fail:
  "codec_fails ops GPS303 buf \<Longrightarrow> codec_fails ops GT06 buf \<Longrightarrow> codec_fails ops TK103 buf
   \<Longrightarrow> codec_fails ops H02 buf \<Longrightarrow> parse_loop ops parsers buf = None"
  by (auto simp: parsers_def codec_fails_def split: sum.splits)

section \<open>Evaluation of lists at numerals\<close>

lemma replicate_numeral_eval: "replicate (numeral k) x = x # replicate (pred_numeral k) x"
  by (simp add: numeral_eq_Suc)

lemma list_update_numeral_eval: "(x # xs)[numeral k := v] = x # xs[pred_numeral k := v]"
  by (simp add: numeral_eq_Suc)

lemma replicate_snoc3: "replicate n x @ [x, x, x] = x # x # x # replicate n x"
  by (induction n) simp_all

section \<open>The GT06 encoder\<close>

lemma copy_into_append:
  "copy_into dat (pre @ replicate (length dat) z @ post) (length pre) = pre @ dat @ post"
proof (induction dat arbitrary: pre)
  case Nil
  then show ?case by simp
next
  case (Cons b bs)
  have "copy_into (b # bs) (pre @ replicate (length (b # bs)) z @ post) (length pre)
        = copy_into bs ((pre @ [b]) @ replicate (length bs) z @ post) (length (pre @ [b]))"
    by (simp add: list_update_append)
  also have "\<dots> = (pre @ [b]) @ bs @ post" by (rule Cons.IH)
  finally show ?case by simp
qed

text \<open>What \<open>wrapCommand\<close> returns for any payload: start bytes, length byte, payload, one
  zero byte left from the allocation, and the two checksum bytes last.\<close>

lemma wrapCommand_bytes:
  "wrapCommand dat =
     Inr ([0x78, 0x78, of_nat (length dat + 1)] @ dat @
          [0, of_nat (calculateCRC (of_nat (length dat + 1) # dat @ [0]) div 256),
              of_nat (calculateCRC (of_nat (length dat + 1) # dat @ [0]) mod 256)])"
proof -
  let ?n = "length dat"
  let ?l = "of_nat (?n + 1) :: byte"
  have b3: "(replicate (?n + 1 + 5) (0::byte))[0 := START_BIT, 1 := START_BIT, 2 := ?l]
      = [0x78, 0x78, ?l] @ replicate ?n 0 @ [0, 0, 0]"
    by (simp add: replicate_snoc3 replicate_add replicate_numeral_eval START_BIT_def
        list_update_numeral_eval)
  have b4: "copy_into dat ([0x78, 0x78, ?l] @ replicate ?n 0 @ [0, 0, 0]) 3
      = [0x78, 0x78, ?l] @ dat @ [0, 0, 0]"
    using copy_into_append [of dat "[0x78, 0x78, ?l]" 0 "[0, 0, 0]"]
    by (simp add: numeral_3_eq_3)
  have sl: "buf_slice ([0x78, 0x78, ?l] @ dat @ [0, 0, 0]) 2 (3 + (?n + 1)) = ?l # dat @ [0]"
    by (simp add: buf_slice_def)
  show ?thesis
    unfolding wrapCommand_def Let_def b3 b4 sl
    by (simp add: writeUInt16BE_def list_update_append nth_append)
qed

section \<open>The GT06 login frame\<close>

lemma hex_digit_0: "hex_digit 0 = CHR ''0''"
  by (simp add: hex_digit_def)

lemma pad_hex:
  "padStart 2 (CHR ''0'') (toString16 (unat (b::byte))) =
     [hex_digit (unat b div 16), hex_digit (unat b mod 16)]"
proof (cases "unat b < 16")
  case True
  then show ?thesis
    by (simp add: toString16.simps [of "unat b"] padStart_def hex_digit_0)
next
  case False
  have "unat b < 256" using unsigned_less [of b] by simp
  then have "unat b div 16 < 16" by simp
  then have "toString16 (unat b div 16) = [hex_digit (unat b div 16)]"
    by (simp add: toString16.simps [of "unat b div 16"])
  with False show ?thesis
    by (simp add: toString16.simps [of "unat b"] padStart_def)
qed

lemma parseIMEI_loop_hex: "parseIMEI_loop bs acc = acc @ toString_hex bs"
  by (induction bs arbitrary: acc) (simp_all add: toString_hex_def pad_hex)

lemma parseIMEI_hex: "parseIMEI bs = toString_hex bs"
  by (simp add: parseIMEI_def parseIMEI_loop_hex)

lemma length_toString_hex: "length (toString_hex bs) = 2 * length bs"
  by (induction bs) (simp_all add: toString_hex_def)

lemma ascii_x: "char_of (120 :: nat) = CHR ''x''"
  by code_simp

lemma gps303_rejects_x:
  assumes "buf \<noteq> []" and "buf ! 0 = 0x78"
  shows "gps303_parse ops buf = Inr (failed None)"
proof -
  from assms obtain bs where buf: "buf = 0x78 # bs" by (cases buf) auto
  have a: "\<not> startsWith (toString_ascii buf) ''##''"
    by (simp add: buf toString_ascii_def startsWith_def ascii_x)
  have b: "\<not> startsWith (toString_ascii buf) ''imei:''"
    by (simp add: buf toString_ascii_def startsWith_def ascii_x)
  show ?thesis
    using a b by (simp add: gps303_parse_def Let_def)
qed

lemma gt06_login_frame_parse:
  assumes start: "buf ! 0 = 0x78" "buf ! 1 = 0x78"
    and len: "12 \<le> unat (buf ! 2)" "unat (buf ! 2) + 5 \<le> length buf"
    and login: "buf ! 3 = 0x01"
    and stop: "buf ! (unat (buf ! 2) + 3) = 0x0D" "buf ! (unat (buf ! 2) + 4) = 0x0A"
  shows "gt06_parse ops buf =
     Inr (succeeded (GT06_Login (toString_hex (take 8 (drop 4 buf)))
                       (unat (buf ! 12) * 256 + unat (buf ! 13)))
            (unat (buf ! 2) + 5))"
proof -
  define n where "n = unat (buf ! 2)"
  define dat where "dat = buf_slice buf 4 (3 + n - 1)"
  have n: "12 \<le> n" "n + 5 \<le> length buf" using len by (simp_all add: n_def)
  have d: "dat = take (n - 2) (drop 4 buf)"
    using n by (simp add: dat_def buf_slice_def)
  have l: "\<not> length dat < 10" using n by (simp add: d)
  have i: "buf_slice dat 0 8 = take 8 (drop 4 buf)"
    using n by (simp add: d buf_slice_def min_def)
  have t: "readUInt16BE dat 8 = unat (buf ! 12) * 256 + unat (buf ! 13)"
    using n by (simp add: readUInt16BE_def d)
  have p: "parseLogin dat = (Inr (GT06_Login (toString_hex (take 8 (drop 4 buf)))
                       (unat (buf ! 12) * 256 + unat (buf ! 13))) :: js_error + 'a parsed_data)"
    using l by (simp add: parseLogin_def i t parseIMEI_hex)
  have s: "buf ! (n + 5 - 2) = 0x0D" "buf ! (n + 5 - 1) = 0x0A"
    using stop by (simp_all add: n_def add.commute)
  have "gt06_parse ops buf =
     (case (parseLogin dat :: js_error + 'a parsed_data) of
        Inl e \<Rightarrow> Inl e | Inr x \<Rightarrow> Inr (succeeded x (n + 5)))"
    unfolding gt06_parse_def Let_def dat_def n_def [symmetric]
    using start n login s
    by (simp add: START_BIT_def STOP_BIT_def STOP_BIT2_def)
  then show ?thesis by (simp add: p n_def)
qed

lemma gt06_login_parse:
  assumes start: "buf ! 0 = 0x78" "buf ! 1 = 0x78"
    and len: "12 \<le> unat (buf ! 2)" "unat (buf ! 2) + 5 \<le> length buf"
    and login: "buf ! 3 = 0x01"
    and stop: "buf ! (unat (buf ! 2) + 3) = 0x0D" "buf ! (unat (buf ! 2) + 4) = 0x0A"
  shows "parse ops buf =
           \<lparr>success = True,
            pdata = Some (GT06_Login (toString_hex (take 8 (drop 4 buf)))
                            (unat (buf ! 12) * 256 + unat (buf ! 13))),
            bytesProcessed = Some (unat (buf ! 2) + 5), perror = None,
            protocol = Some ''gt06''\<rparr>"
proof -
  have ne: "buf \<noteq> []" using len by auto
  have g: "gps303_parse ops buf = Inr (failed None)"
    using ne start by (simp add: gps303_rejects_x)
  have "parse_loop ops parsers buf =
      Some ((succeeded (GT06_Login (toString_hex (take 8 (drop 4 buf)))
                          (unat (buf ! 12) * 256 + unat (buf ! 13)))
               (unat (buf ! 2) + 5))\<lparr>protocol := Some ''gt06''\<rparr>)"
    by (simp add: parsers_def g failed_def gt06_login_frame_parse [OF assms] succeeded_def)
  then show ?thesis
    by (simp add: parse_def succeeded_def)
qed

section \<open>A GT06 login on a new connection\<close>

lemma gt06_login_registers_hex_key:
  assumes start: "buf ! 0 = 0x78" "buf ! 1 = 0x78"
    and len: "12 \<le> unat (buf ! 2)" "unat (buf ! 2) + 5 \<le> length buf"
    and login: "buf ! 3 = 0x01"
    and stop: "buf ! (unat (buf ! 2) + 3) = 0x0D" "buf ! (unat (buf ! 2) + 4) = 0x0A"
    and conn: "connections s cid = Some c" "\<not> destroyed (socket c)" "\<not> authenticated c"
      "conn_buffer c = []"
    and dev: "devices s (toString_hex (take 8 (drop 4 buf))) = Some d" "active d"
      "db_available s"
  shows "connectedDevices (on_data ops s cid buf) (toString_hex (take 8 (drop 4 buf))) = Some cid
       \<and> conn_imei (on_data ops s cid buf) cid = Some (toString_hex (take 8 (drop 4 buf)))
       \<and> conn_authenticated (on_data ops s cid buf) cid"
proof -
  let ?k = "toString_hex (take 8 (drop 4 buf))"
  have p: "parse ops buf =
           \<lparr>success = True,
            pdata = Some (GT06_Login ?k (unat (buf ! 12) * 256 + unat (buf ! 13))),
            bytesProcessed = Some (unat (buf ! 2) + 5), perror = None,
            protocol = Some ''gt06''\<rparr>"
    by (rule gt06_login_parse [OF start len login stop])
  have k: "?k \<noteq> []"
    using len length_toString_hex [of "take 8 (drop 4 buf)"] by auto
  show ?thesis
    using conn dev k
    by (simp add: on_data_def clearTimeout_def conn_update_def handleDeviceData_def Let_def p
        conn_authenticated_def authenticateDevice_def getDeviceByImei_def setDeviceOnline_def
        setDeviceOnlineStatus_def update_device_def sendAuthResponse_def write_if_built_def
        buildAuthResponse_def select_parser_def parsers_def defaultParser_def socket_write_def
        dispatch_def handleLogin_def updateLastLogin_def db_updateLastLogin_def conn_imei_def
        buildLoginResponse_def)
qed

section \<open>Logins on a connection with a history\<close>




section \<open>The command dispatcher\<close>

lemma buildCommand_default_raises: "buildCommand command None = Inl TypeError"
  by (simp add: buildCommand_def select_parser_def parsers_def defaultParser_def)

section \<open>The order of the sub-codecs\<close>


section \<open>GPS303 position frames\<close>

lemma gps303_position_parse:
  assumes "startsWith (toString_ascii buf) ''imei:''"
    and "parts = js_split (CHR '','') (trim (toString_ascii buf))"
    and "12 \<le> length parts"
  shows "parse ops buf =
     \<lparr>success = True,
      pdata = Some (GPS303_Location (nth_opt (js_split (CHR '':'') (parts ! 0)) 1)
                (if parts ! 8 = ''S'' then num_neg ops (gps303_parseCoordinate ops (parts ! 7))
                 else gps303_parseCoordinate ops (parts ! 7))
                (if parts ! 10 = ''W'' then num_neg ops (gps303_parseCoordinate ops (parts ! 9))
                 else gps303_parseCoordinate ops (parts ! 9))
                (if parts ! 11 = [] then number ops 0 else parseFloat ops (parts ! 11))
                (parts ! 6 = ''A'')
                (gps303_parseDateTime (parts ! 2) [])
                (toString_ascii buf)),
      bytesProcessed = Some (length buf), perror = None, protocol = Some ''gps303''\<rparr>"
proof -
  have n: "\<not> startsWith (toString_ascii buf) ''##''"
  proof
    assume h: "startsWith (toString_ascii buf) ''##''"
    have "take 2 (toString_ascii buf) = take 2 (take 5 (toString_ascii buf))" by simp
    also have "take 5 (toString_ascii buf) = ''imei:''"
      using assms(1) by (simp add: startsWith_def eval_nat_numeral)
    finally have "take 2 (toString_ascii buf) = ''im''" by simp
    moreover have "take 2 (toString_ascii buf) = ''##''"
      using h by (simp add: startsWith_def eval_nat_numeral)
    ultimately show False by simp
  qed
  have "gps303_parse ops buf = Inr (succeeded (GPS303_Location (nth_opt (js_split (CHR '':'') (parts ! 0)) 1)
                (if parts ! 8 = ''S'' then num_neg ops (gps303_parseCoordinate ops (parts ! 7))
                 else gps303_parseCoordinate ops (parts ! 7))
                (if parts ! 10 = ''W'' then num_neg ops (gps303_parseCoordinate ops (parts ! 9))
                 else gps303_parseCoordinate ops (parts ! 9))
                (if parts ! 11 = [] then number ops 0 else parseFloat ops (parts ! 11))
                (parts ! 6 = ''A'')
                (gps303_parseDateTime (parts ! 2) [])
                (toString_ascii buf)) (length buf))"
    using assms n by (simp add: gps303_parse_def Let_def)
  then show ?thesis
    by (simp add: parse_def parsers_def succeeded_def)
qed

lemma parseCoordinate_formula:
  "\<not> isNaN ops (parseFloat ops x) \<Longrightarrow>
     gps303_parseCoordinate ops x = spec_coordinate ops (parseFloat ops x)"
  by (simp add: gps303_parseCoordinate_def spec_coordinate_def Let_def)

lemma parseCoordinate_NaN:
  "isNaN ops (parseFloat ops x) \<Longrightarrow> gps303_parseCoordinate ops x = number ops 0"
  by (simp add: gps303_parseCoordinate_def)

lemma parseDateTime_short: "length date < 12 \<Longrightarrow> gps303_parseDateTime date [] = DateNow"
  by (simp add: gps303_parseDateTime_def)

lemma is_digit_iff: "is_digit c \<longleftrightarrow> 48 \<le> (of_char c :: nat) \<and> (of_char c :: nat) \<le> 57"
  unfolding is_digit_def digit_of_def Let_def
  by (cases "48 \<le> (of_char c :: nat) \<and> (of_char c :: nat) \<le> 57";
      cases "97 \<le> (of_char c :: nat) \<and> (of_char c :: nat) \<le> 122";
      cases "65 \<le> (of_char c :: nat) \<and> (of_char c :: nat) \<le> 90") auto

lemma digit_of_digit: "is_digit c \<Longrightarrow> digit_of 10 c = Some (digit_value c)"
  by (auto simp: is_digit_iff digit_of_def digit_value_def Let_def)

lemma digit_not_ws: "is_digit c \<Longrightarrow> \<not> is_ws c"
  by (auto simp: is_digit_iff is_ws_def)

lemma digit_not_special:
  "is_digit c \<Longrightarrow> c \<noteq> CHR ''-'' \<and> c \<noteq> CHR ''+'' \<and> c \<noteq> CHR ''x'' \<and> c \<noteq> CHR ''X''"
  by (auto simp: is_digit_iff)

lemma parseInt_two_digits:
  assumes "is_digit a" and "is_digit b"
  shows "parseInt [a, b] = Some (int (10 * digit_value a + digit_value b))"
  using assms digit_not_ws [of a] digit_not_special [of a] digit_not_special [of b]
  by (simp add: parseInt_def Let_def startsWith_def digit_of_digit is_digit_def [symmetric])

lemma take2_drop: "i + 2 \<le> length xs \<Longrightarrow> take 2 (drop i xs) = [xs ! i, xs ! (i + 1)]"
proof -
  assume l: "i + 2 \<le> length xs"
  then have "drop i xs = xs ! i # drop (Suc i) xs"
    by (simp add: Cons_nth_drop_Suc)
  moreover from l have "drop (Suc i) xs = xs ! (Suc i) # drop (Suc (Suc i)) xs"
    by (simp add: Cons_nth_drop_Suc)
  ultimately show ?thesis by (simp add: numeral_2_eq_2)
qed

lemma parseInt_substring:
  assumes "j = i + 2" and "j \<le> length date" and "\<forall>c\<in>set date. is_digit c"
  shows "parseInt (substring date i j) = Some (two_digits date i)"
proof -
  have "is_digit (date ! i)" "is_digit (date ! (i + 1))"
    using assms by simp_all
  then show ?thesis
    using assms(1,2) by (simp add: substring_def take2_drop parseInt_two_digits two_digits_def)
qed

lemma parseDateTime_digits:
  assumes "length date = 12" and "\<forall>c\<in>set date. is_digit c"
  shows "gps303_parseDateTime date [] =
     DateLocal (Some (2000 + two_digits date 0)) (Some (two_digits date 2 - 1))
       (Some (two_digits date 4)) (Some (two_digits date 6)) (Some (two_digits date 8))
       (Some (two_digits date 10))"
proof -
  have p: "parseInt (substring date 0 2) = Some (two_digits date 0)"
    "parseInt (substring date 2 4) = Some (two_digits date 2)"
    "parseInt (substring date 4 6) = Some (two_digits date 4)"
    "parseInt (substring date 6 8) = Some (two_digits date 6)"
    "parseInt (substring date 8 10) = Some (two_digits date 8)"
    "parseInt (substring date 10 12) = Some (two_digits date 10)"
    using assms by (simp_all add: parseInt_substring)
  have "date \<noteq> []" using assms(1) by auto
  then show ?thesis
    using assms(1) by (simp add: gps303_parseDateTime_def p js_add_def)
qed

lemma parseDateTime_long_not_now:
  assumes "12 \<le> length date"
  shows "gps303_parseDateTime date [] \<noteq> DateNow"
proof -
  have "date \<noteq> []" using assms by auto
  then show ?thesis
    using assms by (simp add: gps303_parseDateTime_def)
qed

lemma parseDateTime_long_invalid:
  assumes "12 \<le> length date"
  shows "invalid_date (gps303_parseDateTime date []) \<longleftrightarrow>
           parseInt (substring date 0 2) = None \<or> parseInt (substring date 2 4) = None \<or>
           parseInt (substring date 4 6) = None \<or> parseInt (substring date 6 8) = None \<or>
           parseInt (substring date 8 10) = None \<or> parseInt (substring date 10 12) = None"
proof -
  have "date \<noteq> []" using assms by auto
  then show ?thesis
    using assms by (simp add: gps303_parseDateTime_def js_add_def split: option.splits)
qed
section \<open>The claims\<close>

text \<open>
  C1. The bytes the GT06 encoder produces, against the reference framing
  \<open>0x78 0x78 | len | data | crc(2) | 0x0D 0x0A\<close>. \<open>wrapCommand\<close> never writes the stop
  bytes: for \<open>engine_stop\<close> it returns the ten bytes \<open>78 78 05 80 05 01 01 00 00 8C\<close>
  (payload, one zero byte, the checksum last), which for no checksum is the reference
  frame, and which the GT06 decoder of the same class refuses for its stop bytes. No
  payload is framed as the reference says.
\<close>

theorem gt06_frames_have_no_stop_bytes:
  "gt06_buildCommand ''engine_stop'' =
     Inr (Some [0x78, 0x78, 0x05, 0x80, 0x05, 0x01, 0x01, 0x00, 0x00, 0x8C]) \<and>
   (\<forall>c1 c2. gt06_buildCommand ''engine_stop'' \<noteq>
              Inr (Some (spec_gt06_frame [0x80, 0x05, 0x01, 0x01] c1 c2))) \<and>
   gt06_parse exact_ops [0x78, 0x78, 0x05, 0x80, 0x05, 0x01, 0x01, 0x00, 0x00, 0x8C] =
     Inr (failed (Some ''Invalid stop bits'')) \<and>
   (\<forall>dat c1 c2. wrapCommand dat \<noteq> Inr (spec_gt06_frame dat c1 c2))"
proof (intro conjI allI)
  show e: "gt06_buildCommand ''engine_stop'' =
     Inr (Some [0x78, 0x78, 0x05, 0x80, 0x05, 0x01, 0x01, 0x00, 0x00, 0x8C])"
    by (simp add: gt06_buildCommand_def buildEngineCommand_def returning_def wrapCommand_bytes
        calculateCRC_def)
  show "gt06_buildCommand ''engine_stop'' \<noteq>
          Inr (Some (spec_gt06_frame [0x80, 0x05, 0x01, 0x01] c1 c2))" for c1 c2
    by (simp add: e spec_gt06_frame_def)
  show "gt06_parse exact_ops [0x78, 0x78, 0x05, 0x80, 0x05, 0x01, 0x01, 0x00, 0x00, 0x8C] =
     Inr (failed (Some ''Invalid stop bits''))"
    by (simp add: gt06_parse_def START_BIT_def STOP_BIT_def STOP_BIT2_def Let_def)
  show "wrapCommand dat \<noteq> Inr (spec_gt06_frame dat c1 c2)" for dat c1 c2
    by (simp add: wrapCommand_bytes spec_gt06_frame_def)
qed

theorem gt06_frames_have_no_stop_bytes_witness:
  "gt06_parse exact_ops [0x78, 0x78, 0x05, 0x80, 0x05, 0x01, 0x01, 0x00, 0x00, 0x8C] =
     Inr (failed (Some ''Invalid stop bits'')) \<and>
   wrapCommand [0x80, 0x05, 0x01, 0x01] \<noteq> Inr (spec_gt06_frame [0x80, 0x05, 0x01, 0x01] 0x00 0x8C)"
  using gt06_frames_have_no_stop_bytes by blast




text \<open>
  C3. A second authentication with the IMEI of a registered session. The registry is a map
  from IMEI to connection, so it holds at most one session per IMEI. As amended: when a
  connection authenticates with an IMEI that the registry maps to an older connection,
  the registry maps the IMEI to the new connection, the device is set online, and the
  older connection object, with its socket, is left as it was: \<open>authenticateDevice\<close> does
  not close it.
\<close>

theorem second_authentication_takes_over_registry:
  assumes "connectedDevices s i = Some a" and "a \<noteq> b"
    and "connections s a = Some ca" and "connections s b = Some cb"
    and "devices s i = Some d" and "active d" and "db_available s"
  shows "connectedDevices (authenticateDevice s b i) i = Some b \<and>
         map_option online (devices (authenticateDevice s b i) i) = Some True \<and>
         connections (authenticateDevice s b i) a = Some ca \<and>
         conn_authenticated (authenticateDevice s b i) b \<and>
         conn_imei (authenticateDevice s b i) b = Some i"
  using assms
  by (simp add: authenticateDevice_def getDeviceByImei_def conn_update_def Let_def
      setDeviceOnline_def setDeviceOnlineStatus_def update_device_def sendAuthResponse_def
      write_if_built_def buildAuthResponse_def select_parser_def parsers_def defaultParser_def
      socket_write_def conn_authenticated_def conn_imei_def)

theorem second_authentication_takes_over_registry_witness:
  "connectedDevices
     (authenticateDevice
        (run exact_ops demo_server [Accept 1, Data 1 gt06_login_frame, Accept 2]) 2
        ''0359710045490084'')
     ''0359710045490084'' = Some 2 \<and>
   map_option online
     (devices
        (authenticateDevice
           (run exact_ops demo_server [Accept 1, Data 1 gt06_login_frame, Accept 2]) 2
           ''0359710045490084'')
        ''0359710045490084'') = Some True \<and>
   socket_of
     (authenticateDevice
        (run exact_ops demo_server [Accept 1, Data 1 gt06_login_frame, Accept 2]) 2
        ''0359710045490084'') 1
     = Some \<lparr>written = [from_ascii ''LOAD'', from_ascii ''LOAD''], destroyed = False\<rparr>"
proof -
  let ?s = "run exact_ops demo_server [Accept 1, Data 1 gt06_login_frame, Accept 2]"
  let ?ca = "\<lparr>socket = \<lparr>written = [from_ascii ''LOAD'', from_ascii ''LOAD''],
                        destroyed = False\<rparr>,
             imei = Some ''0359710045490084'', authenticated = True, lastSeen = 0,
             conn_buffer = [], authTimeout = None\<rparr>"
  let ?cb = "\<lparr>socket = \<lparr>written = [], destroyed = False\<rparr>, imei = None,
             authenticated = False, lastSeen = 0, conn_buffer = [], authTimeout = Some 30000\<rparr>"
  let ?d = "\<lparr>dev_id = 7, active = True, online = True, last_seen = Some 0,
            last_heartbeat = None, last_login = Some 0\<rparr>"
  have h1: "connectedDevices ?s ''0359710045490084'' = Some 1" by code_simp
  have h2: "(1::nat) \<noteq> 2" by simp
  have h3: "connections ?s 1 = Some ?ca" by code_simp
  have h4: "connections ?s 2 = Some ?cb" by code_simp
  have h5: "devices ?s ''0359710045490084'' = Some ?d" by code_simp
  have h6: "active ?d" by simp
  have h7: "db_available ?s" by code_simp
  from second_authentication_takes_over_registry [OF h1 h2 h3 h4 h5 h6 h7]
  show ?thesis by (simp add: socket_of_def)
qed

text \<open>
  The claim as stated fails when two connections log in with the same GT06 frame: the
  registry then maps the IMEI to the second connection while the first connection is still
  authenticated and its socket has not been destroyed.
\<close>

theorem duplicate_imei_old_socket_open_counterexample:
  "socket_of
     (run exact_ops demo_server
        [Accept 1, Data 1 gt06_login_frame, Accept 2, Data 2 gt06_login_frame]) 1
     = Some \<lparr>written = [from_ascii ''LOAD'', from_ascii ''LOAD''], destroyed = False\<rparr> \<and>
   connectedDevices
     (run exact_ops demo_server
        [Accept 1, Data 1 gt06_login_frame, Accept 2, Data 2 gt06_login_frame])
     ''0359710045490084'' = Some 2 \<and>
   conn_authenticated
     (run exact_ops demo_server
        [Accept 1, Data 1 gt06_login_frame, Accept 2, Data 2 gt06_login_frame]) 1"
proof (intro conjI)
  show "socket_of
     (run exact_ops demo_server
        [Accept 1, Data 1 gt06_login_frame, Accept 2, Data 2 gt06_login_frame]) 1
     = Some \<lparr>written = [from_ascii ''LOAD'', from_ascii ''LOAD''], destroyed = False\<rparr>"
    by code_simp
  show "conn_authenticated
     (run exact_ops demo_server
        [Accept 1, Data 1 gt06_login_frame, Accept 2, Data 2 gt06_login_frame]) 1"
    by code_simp
  show "connectedDevices
     (run exact_ops demo_server
        [Accept 1, Data 1 gt06_login_frame, Accept 2, Data 2 gt06_login_frame])
     ''0359710045490084'' = Some 2"
    by code_simp
qed

text \<open>
  C4. The authentication deadline. The \<open>data\<close> handler clears the timer on any received
  bytes: after one byte that decodes to no IMEI, the timer is gone and the connection
  stays open and unauthenticated when the 30 seconds have passed. With no data at all the
  timer fires and the socket is destroyed with nothing written.
\<close>

theorem data_cancels_auth_deadline:
  "connections
     (run exact_ops demo_server
        [Accept 1, Advance 1000, Data 1 [0x00], Advance 29000, TimerDue 1]) 1 =
     Some \<lparr>socket = \<lparr>written = [], destroyed = False\<rparr>, imei = None, authenticated = False,
           lastSeen = 1000, conn_buffer = [], authTimeout = None\<rparr> \<and>
   socket_of (run exact_ops demo_server [Accept 1, Advance 30000, TimerDue 1]) 1 =
     Some \<lparr>written = [], destroyed = True\<rparr>"
proof (intro conjI)
  show "connections
     (run exact_ops demo_server
        [Accept 1, Advance 1000, Data 1 [0x00], Advance 29000, TimerDue 1]) 1 =
     Some \<lparr>socket = \<lparr>written = [], destroyed = False\<rparr>, imei = None, authenticated = False,
           lastSeen = 1000, conn_buffer = [], authTimeout = None\<rparr>"
    by code_simp
  show "socket_of (run exact_ops demo_server [Accept 1, Advance 30000, TimerDue 1]) 1 =
     Some \<lparr>written = [], destroyed = True\<rparr>"
    by code_simp
qed

text \<open>
  C5. An incomplete GT06 frame in the session buffer (right start bytes, fewer than
  \<open>len + 5\<close> bytes): the GT06 sub-codec answers \<open>Incomplete packet\<close> with
  \<open>success: false\<close>, which the top-level parser treats like a rejection, so the generic
  sub-codec decodes the bytes and \<open>handleDeviceData\<close> removes them from the buffer. The
  buffer is not left intact: a login frame that arrives in two chunks never logs the
  device in, while the same frame in one chunk does.
\<close>

theorem incomplete_gt06_frame_is_consumed:
  "gt06_parse exact_ops gt06_partial_frame = Inr (failed (Some ''Incomplete packet'')) \<and>
   parse exact_ops gt06_partial_frame =
     \<lparr>success = True, pdata = Some (Generic_Unknown ''78780d0103'' ''xx...'' 5),
      bytesProcessed = Some 5, perror = None, protocol = Some ''generic''\<rparr> \<and>
   map_option conn_buffer
     (connections (run exact_ops demo_server [Accept 1, Data 1 gt06_partial_frame]) 1) = Some [] \<and>
   connectedDevices
     (run exact_ops demo_server
        [Accept 1, Data 1 (take 5 gt06_login_frame), Data 1 (drop 5 gt06_login_frame)])
     ''0359710045490084'' = None \<and>
   connectedDevices (run exact_ops demo_server [Accept 1, Data 1 gt06_login_frame])
     ''0359710045490084'' = Some 1"
proof (intro conjI)
  show "gt06_parse exact_ops gt06_partial_frame = Inr (failed (Some ''Incomplete packet''))"
    by code_simp
  show "parse exact_ops gt06_partial_frame =
     \<lparr>success = True, pdata = Some (Generic_Unknown ''78780d0103'' ''xx...'' 5),
      bytesProcessed = Some 5, perror = None, protocol = Some ''generic''\<rparr>"
    by code_simp
  show "map_option conn_buffer
     (connections (run exact_ops demo_server [Accept 1, Data 1 gt06_partial_frame]) 1) = Some []"
    by code_simp
  show "connectedDevices
     (run exact_ops demo_server
        [Accept 1, Data 1 (take 5 gt06_login_frame), Data 1 (drop 5 gt06_login_frame)])
     ''0359710045490084'' = None"
    by code_simp
  show "connectedDevices (run exact_ops demo_server [Accept 1, Data 1 gt06_login_frame])
     ''0359710045490084'' = Some 1"
    by code_simp
qed

theorem incomplete_gt06_frame_is_consumed_witness:
  "gt06_parse exact_ops gt06_partial_frame = Inr (failed (Some ''Incomplete packet'')) \<and>
   map_option conn_buffer
     (connections (run exact_ops demo_server [Accept 1, Data 1 gt06_partial_frame]) 1) = Some []"
  using incomplete_gt06_frame_is_consumed by blast

text \<open>
  C6. A delivery whose command has no encoding. \<open>handleDeviceCommand\<close> calls
  \<open>buildCommand\<close> without a protocol, which selects the GPS303 sub-codec; that class has
  no \<open>buildCommand\<close> method, so every call raises and none returns \<open>null\<close>. For a
  connected GT06 device and a command the GT06 codec has no encoding for, the exception is
  caught, the command row stays as it was (pending, no error), the delivery is acked and
  nothing is written to the socket beyond the two login responses.
\<close>

theorem unsupported_command_is_not_marked_failed:
  "(\<forall>command. buildCommand command None = Inl TypeError) \<and>
   gt06_buildCommand ''selfdestruct'' = Inr None \<and>
   commands
     (run exact_ops demo_server
        [Accept 1, Data 1 gt06_login_frame,
         Delivery 5 (Some \<lparr>msg_imei_of = Some ''0359710045490084'',
                          msg_command = Some ''selfdestruct'', msg_commandId_of = Some ''c2''\<rparr>)])
     ''c2'' = Some new_command \<and>
   acked
     (run exact_ops demo_server
        [Accept 1, Data 1 gt06_login_frame,
         Delivery 5 (Some \<lparr>msg_imei_of = Some ''0359710045490084'',
                          msg_command = Some ''selfdestruct'', msg_commandId_of = Some ''c2''\<rparr>)])
     = [5] \<and>
   socket_of
     (run exact_ops demo_server
        [Accept 1, Data 1 gt06_login_frame,
         Delivery 5 (Some \<lparr>msg_imei_of = Some ''0359710045490084'',
                          msg_command = Some ''selfdestruct'', msg_commandId_of = Some ''c2''\<rparr>)])
     1 = Some \<lparr>written = [from_ascii ''LOAD'', from_ascii ''LOAD''], destroyed = False\<rparr>"
proof (intro conjI allI)
  show "buildCommand command None = Inl TypeError" for command
    by (rule buildCommand_default_raises)
  show "gt06_buildCommand ''selfdestruct'' = Inr None"
    by (simp add: gt06_buildCommand_def)
  show "commands
     (run exact_ops demo_server
        [Accept 1, Data 1 gt06_login_frame,
         Delivery 5 (Some \<lparr>msg_imei_of = Some ''0359710045490084'',
                          msg_command = Some ''selfdestruct'', msg_commandId_of = Some ''c2''\<rparr>)])
     ''c2'' = Some new_command"
    by code_simp
  show "acked
     (run exact_ops demo_server
        [Accept 1, Data 1 gt06_login_frame,
         Delivery 5 (Some \<lparr>msg_imei_of = Some ''0359710045490084'',
                          msg_command = Some ''selfdestruct'', msg_commandId_of = Some ''c2''\<rparr>)])
     = [5]"
    by code_simp
  show "socket_of
     (run exact_ops demo_server
        [Accept 1, Data 1 gt06_login_frame,
         Delivery 5 (Some \<lparr>msg_imei_of = Some ''0359710045490084'',
                          msg_command = Some ''selfdestruct'', msg_commandId_of = Some ''c2''\<rparr>)])
     1 = Some \<lparr>written = [from_ascii ''LOAD'', from_ascii ''LOAD''], destroyed = False\<rparr>"
    by code_simp
qed

text \<open>
  C7. Command status writes. \<open>updateCommandStatus\<close> is one unconditional \<open>UPDATE\<close>: it
  does not read the row's current status. As amended: for an existing row the status after
  a write is the status written, whatever it was before (last write wins; no status is
  terminal in the store adapter), and repeating the same write at the same time leaves the
  store as the first write left it.
\<close>

theorem updateCommandStatus_last_write_wins:
  assumes "db_available s" and "commands s k = Some row"
  shows "updateCommandStatus s (Some k) st dat =
           Inr (s\<lparr>commands := (commands s)(k \<mapsto> update_command_row (now s) st dat row)\<rparr>) \<and>
         status (update_command_row (now s) st dat row) = st \<and>
         updateCommandStatus
           (s\<lparr>commands := (commands s)(k \<mapsto> update_command_row (now s) st dat row)\<rparr>)
           (Some k) st dat =
           Inr (s\<lparr>commands := (commands s)(k \<mapsto> update_command_row (now s) st dat row)\<rparr>)"
  using assms
  by (auto simp: updateCommandStatus_def update_command_row_def)

theorem updateCommandStatus_last_write_wins_witness:
  "updateCommandStatus (demo_server\<lparr>now := 9\<rparr>) (Some ''c2'') Sent (no_data\<lparr>data_sent_at := Some 9\<rparr>) =
     Inr (demo_server\<lparr>now := 9, commands := (commands demo_server)(''c2'' \<mapsto>
            \<lparr>status = Sent, response = None, error_message = None, sent_at = Some 9,
             ack_at = None, failed_at = None\<rparr>)\<rparr>)"
proof -
  have h1: "db_available (demo_server\<lparr>now := 9\<rparr>)"
    by (simp add: demo_server_def start_def)
  have h2: "commands (demo_server\<lparr>now := 9\<rparr>) ''c2'' = Some new_command"
    by (simp add: demo_server_def start_def)
  from updateCommandStatus_last_write_wins [OF h1 h2, of Sent "no_data\<lparr>data_sent_at := Some 9\<rparr>"]
  show ?thesis
    by (simp add: update_command_row_def new_command_def no_data_def truthy_def)
qed

text \<open>
  The claim as stated fails on a row that is already acknowledged: a \<open>sent\<close> write makes it
  \<open>sent\<close> again, and a replayed delivery for a device that is not connected makes it
  \<open>failed\<close>.
\<close>

theorem sent_overwrites_acknowledged_counterexample:
  "(case updateCommandStatus
           (start Map.empty [''c1'' \<mapsto> new_command\<lparr>status := Acknowledged\<rparr>] :: rat option server)
           (Some ''c1'') Sent (no_data\<lparr>data_sent_at := Some 5\<rparr>) of
      Inl e \<Rightarrow> None
    | Inr s \<Rightarrow> map_option status (commands s ''c1'')) = Some Sent \<and>
   map_option status
     (commands
        (run exact_ops (start Map.empty [''c1'' \<mapsto> new_command\<lparr>status := Acknowledged\<rparr>])
           [Delivery 1 (Some \<lparr>msg_imei_of = Some ''999'', msg_command = Some ''locate'',
                             msg_commandId_of = Some ''c1''\<rparr>)])
        ''c1'') = Some Failed"
proof (intro conjI)
  show "(case updateCommandStatus
           (start Map.empty [''c1'' \<mapsto> new_command\<lparr>status := Acknowledged\<rparr>] :: rat option server)
           (Some ''c1'') Sent (no_data\<lparr>data_sent_at := Some 5\<rparr>) of
      Inl e \<Rightarrow> None
    | Inr s \<Rightarrow> map_option status (commands s ''c1'')) = Some Sent"
    by (simp add: updateCommandStatus_def start_def update_command_row_def)
  show "map_option status
     (commands
        (run exact_ops (start Map.empty [''c1'' \<mapsto> new_command\<lparr>status := Acknowledged\<rparr>])
           [Delivery 1 (Some \<lparr>msg_imei_of = Some ''999'', msg_command = Some ''locate'',
                             msg_commandId_of = Some ''c1''\<rparr>)])
        ''c1'') = Some Failed"
    by code_simp
qed

text \<open>
  C8. GPS303 position frames: the timestamp. \<open>parseDateTime\<close> falls back to the time of
  receipt only when the date field is empty or shorter than 12 characters. A field of 12
  or more characters is never replaced by the time of receipt: each pair of characters goes
  through \<open>parseInt\<close>, which raises nothing, and a pair that is no number gives \<open>NaN\<close>, so
  the \<open>Date\<close> built from it is an Invalid Date. The frame
  \<open>imei:1,t,2501011200xx,,F,1,A,2230.0,S,04310.0,W,1\<close> is decoded as a GPS303 location
  with latitude \<open>-45/2\<close>, longitude \<open>-259/6\<close>, speed 1 and the timestamp
  \<open>new Date(2025, 0, 1, 12, 0, NaN)\<close>, which is neither a decoded time nor the time of
  receipt, against the comments of \<open>parseDateTime\<close> (the current date when the field cannot
  be parsed).
\<close>

theorem gps303_unparsable_date_is_invalid:
  "parse exact_ops (from_ascii gps303_bad_date_frame) =
     \<lparr>success = True,
      pdata = Some (GPS303_Location (Some ''1'') (Some (- (45 / 2))) (Some (- (259 / 6)))
                (Some 1) True
                (DateLocal (Some 2025) (Some 0) (Some 1) (Some 12) (Some 0) None)
                gps303_bad_date_frame),
      bytesProcessed = Some 49, perror = None, protocol = Some ''gps303''\<rparr> \<and>
   invalid_date (DateLocal (Some 2025) (Some 0) (Some 1) (Some 12) (Some 0) None) \<and>
   gps303_parseDateTime ''2501011200xx'' [] \<noteq> DateNow \<and>
   (\<forall>date. 12 \<le> length date \<longrightarrow>
      gps303_parseDateTime date [] \<noteq> DateNow \<and>
      (invalid_date (gps303_parseDateTime date []) \<longleftrightarrow>
         parseInt (substring date 0 2) = None \<or> parseInt (substring date 2 4) = None \<or>
         parseInt (substring date 4 6) = None \<or> parseInt (substring date 6 8) = None \<or>
         parseInt (substring date 8 10) = None \<or> parseInt (substring date 10 12) = None))"
proof (intro conjI allI impI)
  show "parse exact_ops (from_ascii gps303_bad_date_frame) =
     \<lparr>success = True,
      pdata = Some (GPS303_Location (Some ''1'') (Some (- (45 / 2))) (Some (- (259 / 6)))
                (Some 1) True
                (DateLocal (Some 2025) (Some 0) (Some 1) (Some 12) (Some 0) None)
                gps303_bad_date_frame),
      bytesProcessed = Some 49, perror = None, protocol = Some ''gps303''\<rparr>"
    by code_simp
  show "invalid_date (DateLocal (Some 2025) (Some 0) (Some 1) (Some 12) (Some 0) None)"
    by simp
  show "gps303_parseDateTime ''2501011200xx'' [] \<noteq> DateNow"
    by (simp add: parseDateTime_long_not_now)
  show "gps303_parseDateTime date [] \<noteq> DateNow" if "12 \<le> length date" for date
    using that by (rule parseDateTime_long_not_now)
  show "invalid_date (gps303_parseDateTime date []) \<longleftrightarrow>
         parseInt (substring date 0 2) = None \<or> parseInt (substring date 2 4) = None \<or>
         parseInt (substring date 4 6) = None \<or> parseInt (substring date 6 8) = None \<or>
         parseInt (substring date 8 10) = None \<or> parseInt (substring date 10 12) = None"
    if "12 \<le> length date" for date
    using that by (rule parseDateTime_long_invalid)
qed

theorem gps303_unparsable_date_is_invalid_witness:
  "12 \<le> length ''25010112003x'' \<and>
   gps303_parseDateTime ''25010112003x'' [] =
     DateLocal (Some 2025) (Some 0) (Some 1) (Some 12) (Some 0) (Some 3) \<and>
   \<not> invalid_date (gps303_parseDateTime ''25010112003x'' []) \<and>
   12 \<le> length ''2501011200xx'' \<and>
   parseInt (substring ''2501011200xx'' 10 12) = None \<and>
   invalid_date (gps303_parseDateTime ''2501011200xx'' [])"
proof -
  have a: "parseInt (substring ''2501011200xx'' 10 12) = None" by code_simp
  have b: "gps303_parseDateTime ''25010112003x'' [] =
     DateLocal (Some 2025) (Some 0) (Some 1) (Some 12) (Some 0) (Some 3)" by code_simp
  from gps303_unparsable_date_is_invalid a b show ?thesis by simp
qed

text \<open>
  C9. The top-level parse never returns its failure branch: its result always has
  \<open>success\<close>, and on every buffer on which all four specific sub-codecs fail (by
  rejecting, by reporting an incomplete packet or by raising) it is the generic parser's
  \<open>unknown\<close> event with \<open>bytesProcessed\<close> equal to the length of the whole buffer. So the
  branch \<open>if (!parseResult.success)\<close> of \<open>handleDeviceData\<close> is never taken.
\<close>

theorem parse_never_fails:
  "success (parse ops buf) \<and>
   (codec_fails ops GPS303 buf \<and> codec_fails ops GT06 buf \<and> codec_fails ops TK103 buf \<and>
    codec_fails ops H02 buf
     \<longrightarrow> parse ops buf =
           \<lparr>success = True,
            pdata = Some (Generic_Unknown (toString_hex buf) (map printable (toString_ascii buf))
                            (length buf)),
            bytesProcessed = Some (length buf), perror = None, protocol = Some ''generic''\<rparr>)"
proof (intro conjI impI)
  show "success (parse ops buf)" by (rule parse_success)
next
  assume "codec_fails ops GPS303 buf \<and> codec_fails ops GT06 buf \<and> codec_fails ops TK103 buf \<and>
    codec_fails ops H02 buf"
  then have "parse_loop ops parsers buf = None" by (simp add: parse_loop_all_fail)
  then show "parse ops buf =
           \<lparr>success = True,
            pdata = Some (Generic_Unknown (toString_hex buf) (map printable (toString_ascii buf))
                            (length buf)),
            bytesProcessed = Some (length buf), perror = None, protocol = Some ''generic''\<rparr>"
    by (simp add: parse_def generic_parse_def succeeded_def)
qed

theorem parse_never_fails_witness:
  "(codec_fails exact_ops GPS303 [0x78, 0x78, 0x0D, 0x01, 0x03] \<and>
    codec_fails exact_ops GT06 [0x78, 0x78, 0x0D, 0x01, 0x03] \<and>
    codec_fails exact_ops TK103 [0x78, 0x78, 0x0D, 0x01, 0x03] \<and>
    codec_fails exact_ops H02 [0x78, 0x78, 0x0D, 0x01, 0x03]) \<and>
   success (parse exact_ops [0x78, 0x78, 0x0D, 0x01, 0x03]) \<and>
   parse exact_ops [0x78, 0x78, 0x0D, 0x01, 0x03] =
     \<lparr>success = True, pdata = Some (Generic_Unknown ''78780d0103'' ''xx...'' 5),
      bytesProcessed = Some 5, perror = None, protocol = Some ''generic''\<rparr>"
proof -
  have f: "codec_fails exact_ops GPS303 [0x78, 0x78, 0x0D, 0x01, 0x03] \<and>
    codec_fails exact_ops GT06 [0x78, 0x78, 0x0D, 0x01, 0x03] \<and>
    codec_fails exact_ops TK103 [0x78, 0x78, 0x0D, 0x01, 0x03] \<and>
    codec_fails exact_ops H02 [0x78, 0x78, 0x0D, 0x01, 0x03]"
    by code_simp
  have h: "toString_hex [0x78, 0x78, 0x0D, 0x01, 0x03] = ''78780d0103''" by code_simp
  have a: "map printable (toString_ascii [0x78, 0x78, 0x0D, 0x01, 0x03]) = ''xx...''"
    by code_simp
  from parse_never_fails [of exact_ops "[0x78, 0x78, 0x0D, 0x01, 0x03]"] f h a
  show ?thesis by simp
qed

text \<open>
  C10. For every GT06 login frame the top-level parser accepts (start bytes, a length byte
  of at least 12, protocol number 1, stop bytes in place), the decoded IMEI is the
  hexadecimal rendering of the eight bytes at offsets 4 to 11, two lower-case digits per
  byte with leading zeros kept: 16 characters. When such a frame is the first data of a
  connection and the store has an active device under that 16-character string, the
  connection is entered in the registry under that string.
\<close>

theorem gt06_login_imei_hex16:
  assumes start: "buf ! 0 = 0x78" "buf ! 1 = 0x78"
    and len: "12 \<le> unat (buf ! 2)" "unat (buf ! 2) + 5 \<le> length buf"
    and login: "buf ! 3 = 0x01"
    and stop: "buf ! (unat (buf ! 2) + 3) = 0x0D" "buf ! (unat (buf ! 2) + 4) = 0x0A"
  shows "parse ops buf =
           \<lparr>success = True,
            pdata = Some (GT06_Login (toString_hex (take 8 (drop 4 buf)))
                            (unat (buf ! 12) * 256 + unat (buf ! 13))),
            bytesProcessed = Some (unat (buf ! 2) + 5), perror = None,
            protocol = Some ''gt06''\<rparr>
         \<and> length (toString_hex (take 8 (drop 4 buf))) = 16
         \<and> (\<forall>s cid c d.
               connections s cid = Some c \<and> \<not> destroyed (socket c) \<and> \<not> authenticated c \<and>
               conn_buffer c = [] \<and>
               devices s (toString_hex (take 8 (drop 4 buf))) = Some d \<and> active d \<and>
               db_available s
               \<longrightarrow> connectedDevices (on_data ops s cid buf)
                     (toString_hex (take 8 (drop 4 buf))) = Some cid \<and>
                   conn_imei (on_data ops s cid buf) cid
                     = Some (toString_hex (take 8 (drop 4 buf))))"
proof (intro conjI allI impI)
  show "parse ops buf =
           \<lparr>success = True,
            pdata = Some (GT06_Login (toString_hex (take 8 (drop 4 buf)))
                            (unat (buf ! 12) * 256 + unat (buf ! 13))),
            bytesProcessed = Some (unat (buf ! 2) + 5), perror = None,
            protocol = Some ''gt06''\<rparr>"
    by (rule gt06_login_parse [OF assms])
  show "length (toString_hex (take 8 (drop 4 buf))) = 16"
    using len by (simp add: length_toString_hex)
next
  fix s :: "'a server" and cid c d
  assume h: "connections s cid = Some c \<and> \<not> destroyed (socket c) \<and> \<not> authenticated c \<and>
               conn_buffer c = [] \<and>
               devices s (toString_hex (take 8 (drop 4 buf))) = Some d \<and> active d \<and>
               db_available s"
  then have k: "connectedDevices (on_data ops s cid buf) (toString_hex (take 8 (drop 4 buf)))
        = Some cid
       \<and> conn_imei (on_data ops s cid buf) cid = Some (toString_hex (take 8 (drop 4 buf)))
       \<and> conn_authenticated (on_data ops s cid buf) cid"
    using gt06_login_registers_hex_key [OF assms, of s cid c d ops] by blast
  from k show "connectedDevices (on_data ops s cid buf)
                     (toString_hex (take 8 (drop 4 buf))) = Some cid" by blast
  from k show "conn_imei (on_data ops s cid buf) cid
                     = Some (toString_hex (take 8 (drop 4 buf)))" by blast
qed

theorem gt06_login_imei_hex16_witness:
  "parse exact_ops gt06_login_frame =
     \<lparr>success = True, pdata = Some (GT06_Login ''0359710045490084'' 20480),
      bytesProcessed = Some 18, perror = None, protocol = Some ''gt06''\<rparr>
   \<and> length ''0359710045490084'' = 16
   \<and> connectedDevices (on_data exact_ops (handleConnection demo_server 1) 1 gt06_login_frame)
        ''0359710045490084'' = Some 1
   \<and> conn_imei (on_data exact_ops (handleConnection demo_server 1) 1 gt06_login_frame) 1
        = Some ''0359710045490084''"
proof -
  let ?c = "\<lparr>socket = \<lparr>written = [], destroyed = False\<rparr>, imei = None, authenticated = False,
            lastSeen = 0, conn_buffer = [], authTimeout = Some 30000\<rparr>"
  have k: "toString_hex (take 8 (drop 4 gt06_login_frame)) = ''0359710045490084''"
    by code_simp
  have f: "gt06_login_frame ! 0 = 0x78" "gt06_login_frame ! 1 = 0x78"
    "12 \<le> unat (gt06_login_frame ! 2)" "unat (gt06_login_frame ! 2) + 5 \<le> length gt06_login_frame"
    "gt06_login_frame ! 3 = 0x01"
    "gt06_login_frame ! (unat (gt06_login_frame ! 2) + 3) = 0x0D"
    "gt06_login_frame ! (unat (gt06_login_frame ! 2) + 4) = 0x0A"
    by (simp_all add: gt06_login_frame_def)
  have c: "connections (handleConnection demo_server 1) 1 = Some ?c"
    "\<not> destroyed (socket ?c)" "\<not> authenticated ?c" "conn_buffer ?c = []"
    by (simp_all add: handleConnection_def demo_server_def start_def)
  have d: "devices (handleConnection demo_server 1 :: rat option server)
             (toString_hex (take 8 (drop 4 gt06_login_frame))) = Some (new_device 7)"
    "active (new_device 7)" "db_available (handleConnection demo_server 1 :: rat option server)"
    by (simp_all add: k handleConnection_def demo_server_def start_def new_device_def)
  have v: "unat (gt06_login_frame ! 12) * 256 + unat (gt06_login_frame ! 13) = 20480"
    "unat (gt06_login_frame ! 2) + 5 = 18"
    by (simp_all add: gt06_login_frame_def)
  from gt06_login_imei_hex16 [OF f, of exact_ops] c d
  show ?thesis by (simp add: k v)
qed

section \<open>Further properties\<close>

text \<open>
  The frame \<open>wrapCommand\<close> builds, for every payload: start bytes, length byte, payload, one
  zero byte and the two checksum bytes.
\<close>

lemma wrapCommand_layout:
  "wrapCommand dat =
     Inr ([0x78, 0x78, of_nat (length dat + 1)] @ dat @
          [0, of_nat (calculateCRC (of_nat (length dat + 1) # dat @ [0]) div 256),
              of_nat (calculateCRC (of_nat (length dat + 1) # dat @ [0]) mod 256)])"
  by (rule wrapCommand_bytes)

text \<open>
  A command for a device that is not in the registry: the command row becomes \<open>failed\<close>
  with the error \<open>Device not connected\<close>, the delivery is acked and nothing else changes
  (scenario S3).
\<close>

lemma command_to_offline_device_fails:
  assumes "connectedDevices s i = None" and "db_available s" and "commands s k = Some row"
  shows "consume_callback s tag
           (Some \<lparr>msg_imei_of = Some i, msg_command = command, msg_commandId_of = Some k\<rparr>) =
         s\<lparr>commands := (commands s)(k \<mapsto>
               row\<lparr>status := Failed, error_message := Some ''Device not connected'',
                   failed_at := Some (now s)\<rparr>),
           acked := acked s @ [tag]\<rparr>"
  using assms
  by (simp add: consume_callback_def handleDeviceCommand_def updateCommandStatus_def
      update_command_row_def no_data_def truthy_def Let_def)

lemma command_to_offline_device_fails_example:
  "consume_callback demo_server 3
     (Some \<lparr>msg_imei_of = Some ''999'', msg_command = Some ''locate'',
            msg_commandId_of = Some ''c2''\<rparr>) =
   demo_server\<lparr>commands := (commands demo_server)(''c2'' \<mapsto>
       \<lparr>status = Failed, response = None, error_message = Some ''Device not connected'',
        sent_at = None, ack_at = None, failed_at = Some 0\<rparr>),
     acked := [3]\<rparr>"
proof -
  have h1: "connectedDevices demo_server ''999'' = None"
    by (simp add: demo_server_def start_def)
  have h2: "db_available demo_server" by (simp add: demo_server_def start_def)
  have h3: "commands demo_server ''c2'' = Some new_command"
    by (simp add: demo_server_def start_def)
  from command_to_offline_device_fails [OF h1 h2 h3, of 3 "Some ''locate''"]
  show ?thesis by (simp add: new_command_def demo_server_def start_def)
qed

text \<open>
  A connection on which nothing arrives: when the timer is due, 30 seconds after the
  accept, the socket is destroyed with nothing written; a millisecond earlier it is not
  (scenario S6).
\<close>

lemma silent_connection_is_closed_at_deadline:
  assumes "30000 \<le> ms"
  shows "socket_of (authTimeout_fires ((handleConnection s cid)\<lparr>now := now s + ms\<rparr>) cid) cid
           = Some \<lparr>written = [], destroyed = True\<rparr> \<and>
         socket_of (authTimeout_fires ((handleConnection s cid)\<lparr>now := now s + 29999\<rparr>) cid) cid
           = Some \<lparr>written = [], destroyed = False\<rparr>"
  using assms
  by (simp add: socket_of_def authTimeout_fires_def handleConnection_def clearTimeout_def
      conn_update_def socket_destroy_def Let_def)

lemma silent_connection_is_closed_at_deadline_example:
  "socket_of (authTimeout_fires ((handleConnection demo_server 1)\<lparr>now := now demo_server + 30000\<rparr>) 1) 1
     = Some \<lparr>written = [], destroyed = True\<rparr>"
proof -
  have "(30000::nat) \<le> 30000" by simp
  from silent_connection_is_closed_at_deadline [OF this, of demo_server 1]
  show ?thesis by simp
qed

text \<open>
  After a second connection has taken over an IMEI, the close of the first connection runs
  \<open>handleDisconnection\<close> with the same IMEI: the registry entry of the second connection
  is deleted and the device set offline, although the second connection is open and
  authenticated.
\<close>

lemma close_of_displaced_session_unregisters_device:
  "connectedDevices
     (run exact_ops demo_server
        [Accept 1, Data 1 gt06_login_frame, Accept 2, Data 2 gt06_login_frame, Close 1])
     ''0359710045490084'' = None \<and>
   map_option online
     (devices
        (run exact_ops demo_server
           [Accept 1, Data 1 gt06_login_frame, Accept 2, Data 2 gt06_login_frame, Close 1])
        ''0359710045490084'') = Some False \<and>
   connections
     (run exact_ops demo_server
        [Accept 1, Data 1 gt06_login_frame, Accept 2, Data 2 gt06_login_frame, Close 1]) 2
     = Some \<lparr>socket = \<lparr>written = [from_ascii ''LOAD'', from_ascii ''LOAD''], destroyed = False\<rparr>,
             imei = Some ''0359710045490084'', authenticated = True, lastSeen = 0,
             conn_buffer = [], authTimeout = None\<rparr>"
proof (intro conjI)
  show "connectedDevices
     (run exact_ops demo_server
        [Accept 1, Data 1 gt06_login_frame, Accept 2, Data 2 gt06_login_frame, Close 1])
     ''0359710045490084'' = None"
    by code_simp
  show "map_option online
     (devices
        (run exact_ops demo_server
           [Accept 1, Data 1 gt06_login_frame, Accept 2, Data 2 gt06_login_frame, Close 1])
        ''0359710045490084'') = Some False"
    by code_simp
  show "connections
     (run exact_ops demo_server
        [Accept 1, Data 1 gt06_login_frame, Accept 2, Data 2 gt06_login_frame, Close 1]) 2
     = Some \<lparr>socket = \<lparr>written = [from_ascii ''LOAD'', from_ascii ''LOAD''], destroyed = False\<rparr>,
             imei = Some ''0359710045490084'', authenticated = True, lastSeen = 0,
             conn_buffer = [], authTimeout = None\<rparr>"
    by code_simp
qed

text \<open>
  GPS303 position frames. For every buffer whose text starts with \<open>imei:\<close> and, trimmed,
  splits at commas into at least 12 fields, the top-level parser returns a GPS303 location:
  latitude and longitude are the coordinates decoded from fields 7 and 9, negated exactly
  when field 8 is \<open>S\<close> and field 10 is \<open>W\<close>; the speed is \<open>parseFloat\<close> of field 11 (0 when
  that field is empty); the fix is valid when field 6 is \<open>A\<close>; the timestamp is decoded from
  field 2. A coordinate whose text is a number \<open>x\<close> is decoded as
  \<open>floor(x / 100) + (x % 100) / 60\<close>. A date field of 12 digits gives the local date
  \<open>2000 + YY\<close>, month \<open>MM - 1\<close>, \<open>DD\<close>, \<open>hh\<close>, \<open>mm\<close>, \<open>ss\<close>, and a field of fewer than 12
  characters gives the time of receipt. The statement holds for any interpretation of
  JavaScript's number operations; the frame of scenario S2 is evaluated in exact decimal
  arithmetic, where it yields latitude \<open>-45/2\<close>, longitude \<open>-259/6\<close> (within \<open>0.0001\<close> of
  \<open>-43.1667\<close>) and speed \<open>85/2\<close>.
\<close>

lemma gps303_position_fields:
  assumes "startsWith (toString_ascii buf) ''imei:''"
    and "parts = js_split (CHR '','') (trim (toString_ascii buf))"
    and "12 \<le> length parts"
  shows
    "parse ops buf =
       \<lparr>success = True,
        pdata = Some (GPS303_Location (nth_opt (js_split (CHR '':'') (parts ! 0)) 1)
                  (if parts ! 8 = ''S'' then num_neg ops (gps303_parseCoordinate ops (parts ! 7))
                   else gps303_parseCoordinate ops (parts ! 7))
                  (if parts ! 10 = ''W'' then num_neg ops (gps303_parseCoordinate ops (parts ! 9))
                   else gps303_parseCoordinate ops (parts ! 9))
                  (if parts ! 11 = [] then number ops 0 else parseFloat ops (parts ! 11))
                  (parts ! 6 = ''A'')
                  (gps303_parseDateTime (parts ! 2) [])
                  (toString_ascii buf)),
        bytesProcessed = Some (length buf), perror = None, protocol = Some ''gps303''\<rparr> \<and>
     (\<forall>x. \<not> isNaN ops (parseFloat ops x) \<longrightarrow>
          gps303_parseCoordinate ops x = spec_coordinate ops (parseFloat ops x)) \<and>
     (\<forall>date. length date = 12 \<and> (\<forall>c\<in>set date. is_digit c) \<longrightarrow>
          gps303_parseDateTime date [] =
            DateLocal (Some (2000 + two_digits date 0)) (Some (two_digits date 2 - 1))
              (Some (two_digits date 4)) (Some (two_digits date 6)) (Some (two_digits date 8))
              (Some (two_digits date 10))) \<and>
     (\<forall>date. length date < 12 \<longrightarrow> gps303_parseDateTime date [] = DateNow)"
  using gps303_position_parse [OF assms, of ops]
  by (simp add: parseCoordinate_formula parseDateTime_digits parseDateTime_short)

lemma gps303_position_fields_example:
  "startsWith (toString_ascii (from_ascii gps303_position_frame)) ''imei:'' \<and>
   12 \<le> length (js_split (CHR '','') (trim (toString_ascii (from_ascii gps303_position_frame)))) \<and>
   parse exact_ops (from_ascii gps303_position_frame) =
     \<lparr>success = True,
      pdata = Some (GPS303_Location (Some ''359710045490084'') (Some (- (45 / 2)))
                (Some (- (259 / 6))) (Some (85 / 2)) True
                (DateLocal (Some 2025) (Some 0) (Some 1) (Some 12) (Some 0) (Some 0))
                gps303_position_frame),
      bytesProcessed = Some 91, perror = None, protocol = Some ''gps303''\<rparr> \<and>
   \<bar>- (259 / 6) + 43.1667 :: rat\<bar> < 1 / 10000"
proof -
  let ?parts = "[''imei:359710045490084'', ''tracker'', ''250101120000'', [], ''F'',
                 ''120000.000'', ''A'', ''2230.0000'', ''S'', ''04310.0000'', ''W'', ''42.5'',
                 ''...'']"
  have a: "toString_ascii (from_ascii gps303_position_frame) = gps303_position_frame"
    by code_simp
  have h1: "startsWith (toString_ascii (from_ascii gps303_position_frame)) ''imei:''"
    by code_simp
  have h2: "?parts = js_split (CHR '','') (trim (toString_ascii (from_ascii gps303_position_frame)))"
    by code_simp
  have h3: "12 \<le> length ?parts" by simp
  have i: "nth_opt (js_split (CHR '':'') ''imei:359710045490084'') 1 = Some ''359710045490084''"
    by code_simp
  have lat: "gps303_parseCoordinate exact_ops ''2230.0000'' = Some (45 / 2)" by code_simp
  have lon: "gps303_parseCoordinate exact_ops ''04310.0000'' = Some (259 / 6)" by code_simp
  have sp: "parseFloat exact_ops ''42.5'' = Some (85 / 2)" by code_simp
  have ng: "num_neg exact_ops (Some (45 / 2)) = Some (- (45 / 2))"
    "num_neg exact_ops (Some (259 / 6)) = Some (- (259 / 6))"
    by (simp_all add: exact_ops_def)
  have ts: "gps303_parseDateTime ''250101120000'' [] =
      DateLocal (Some 2025) (Some 0) (Some 1) (Some 12) (Some 0) (Some 0)"
    by code_simp
  have l: "length (from_ascii gps303_position_frame) = 91" by code_simp
  from gps303_position_fields [OF h1 h2 h3, of exact_ops]
  have "parse exact_ops (from_ascii gps303_position_frame) =
     \<lparr>success = True,
      pdata = Some (GPS303_Location (Some ''359710045490084'') (Some (- (45 / 2)))
                (Some (- (259 / 6))) (Some (85 / 2)) True
                (DateLocal (Some 2025) (Some 0) (Some 1) (Some 12) (Some 0) (Some 0))
                gps303_position_frame),
      bytesProcessed = Some 91, perror = None, protocol = Some ''gps303''\<rparr>"
    by (simp add: a nth_opt_def lat lon sp ng ts l)
  with h1 h2 [symmetric] h3 show ?thesis by simp
qed
end
